theory Spec2Isabelle
  imports Complex_Main "HOL-Library.Multiset" "HOL-Library.Log_Nat"
begin

section \<open>Persistence gateway\<close>

text \<open>
  The database helpers talk to a relational store through an ORM. The store is modelled
  as three tables (lists of rows, in table order); every helper takes the store and
  returns its result together with the store it leaves behind. An exception thrown by a
  helper is the \<open>Inl\<close> branch of its result, and the store is then the one it got.
  Row amounts and identifiers are the integers the ORM's \<open>Int\<close> columns hold.
\<close>

record DbUser =
  fid :: nat
  notificationDetails :: "string option"

record DbSong =
  song_id :: nat
  title :: string
  startDate :: string
  endDate :: string
  feat :: "string option"

record DbCollection =
  userId :: nat
  songId :: nat
  amount :: int

record db =
  users :: "DbUser list"
  songs :: "DbSong list"
  collections :: "DbCollection list"

datatype db_error =
    CollectionNotRetrieved
  | UserDoesNotExist nat
  | SongDoesNotExist nat
  | JsonSyntaxError
  | RecordNotFound
  | UniqueConstraintFailed

text \<open>\<open>prisma.user.findUnique({ where: { fid } })\<close> and \<open>getUser\<close>.\<close>

definition prisma_user_findUnique :: "db \<Rightarrow> nat \<Rightarrow> DbUser option" where
  "prisma_user_findUnique d f = find (\<lambda>u. fid u = f) (users d)"

definition getUser :: "db \<Rightarrow> nat \<Rightarrow> DbUser option" where
  "getUser d f = (case prisma_user_findUnique d f of None \<Rightarrow> None | Some user \<Rightarrow> Some user)"

text \<open>
  Modelled from the spec: the relation \<open>Collection.user\<close> that \<open>include: { user: true }\<close>
  follows is declared in the ORM schema, which is not among the sources. It joins a row's
  \<open>userId\<close> to the user with that \<open>fid\<close>, the key \<open>createCollection\<close> looks the user up by.
\<close>

definition include_user :: "db \<Rightarrow> DbCollection \<Rightarrow> DbCollection \<times> DbUser option" where
  "include_user d c = (c, prisma_user_findUnique d (userId c))"

text \<open>\<open>prisma.collection.findUnique({ where: { userId_songId } })\<close>.\<close>

definition prisma_collection_findUnique :: "db \<Rightarrow> nat \<Rightarrow> nat \<Rightarrow> DbCollection option" where
  "prisma_collection_findUnique d u s = find (\<lambda>c. userId c = u \<and> songId c = s) (collections d)"

definition isInCollection :: "db \<Rightarrow> nat \<Rightarrow> nat \<Rightarrow> bool" where
  "isInCollection d u s = (prisma_collection_findUnique d u s \<noteq> None)"

definition getCollection :: "db \<Rightarrow> nat \<Rightarrow> nat \<Rightarrow> DbCollection option" where
  "getCollection d u s = prisma_collection_findUnique d u s"

text \<open>
  \<open>prisma.collection.findMany({ where: { songId }, include: { user: true },
  orderBy: { amount: "desc" } })\<close>. The sort is stable: rows of equal amount stay in table
  order (the store leaves the order of ties open).
\<close>

definition prisma_collection_findMany_desc :: "db \<Rightarrow> nat \<Rightarrow> (DbCollection \<times> DbUser option) list" where
  "prisma_collection_findMany_desc d s =
     map (include_user d) (sort_key (\<lambda>c. - amount c) (filter (\<lambda>c. songId c = s) (collections d)))"

definition getCollectorsBySongId :: "db \<Rightarrow> nat \<Rightarrow> (DbCollection \<times> DbUser option) list" where
  "getCollectorsBySongId d s = prisma_collection_findMany_desc d s"

text \<open>
  \<open>getSong\<close>: the song with its collectors, its \<open>feat\<close> column parsed when it is a
  non-empty string. \<open>JSON.parse\<close> is a parameter: \<open>None\<close> is its SyntaxError.
\<close>

record 'j DbSongWithCollectors =
  song :: DbSong
  parsedFeat :: "'j option"
  collectors :: "(DbCollection \<times> DbUser option) list"

definition prisma_song_findUnique :: "db \<Rightarrow> nat \<Rightarrow> DbSong option" where
  "prisma_song_findUnique d i = find (\<lambda>s. song_id s = i) (songs d)"

definition getSong :: "(string \<Rightarrow> 'j option) \<Rightarrow> db \<Rightarrow> nat \<Rightarrow> db_error + 'j DbSongWithCollectors option" where
  "getSong jsonParse d i =
     (case prisma_song_findUnique d i of
        None \<Rightarrow> Inr None
      | Some sg \<Rightarrow>
          let cs = map (include_user d) (filter (\<lambda>c. songId c = i) (collections d)) in
          (case feat sg of
             None \<Rightarrow> Inr (Some \<lparr>song = sg, parsedFeat = None, collectors = cs\<rparr>)
           | Some txt \<Rightarrow>
               if txt = [] then Inr (Some \<lparr>song = sg, parsedFeat = None, collectors = cs\<rparr>)
               else (case jsonParse txt of
                       None \<Rightarrow> Inl JsonSyntaxError
                     | Some j \<Rightarrow> Inr (Some \<lparr>song = sg, parsedFeat = Some j, collectors = cs\<rparr>))))"

text \<open>
  \<open>prisma.collection.update\<close> on the unique key (it throws when no row has the key) and
  \<open>prisma.collection.create\<close> (it throws when the key is taken).
\<close>

definition prisma_collection_update :: "db \<Rightarrow> nat \<Rightarrow> nat \<Rightarrow> int \<Rightarrow> db_error + (db \<times> DbCollection)" where
  "prisma_collection_update d u s a =
     (case prisma_collection_findUnique d u s of
        None \<Rightarrow> Inl RecordNotFound
      | Some c \<Rightarrow>
          Inr (d\<lparr>collections :=
                   map (\<lambda>r. if userId r = u \<and> songId r = s then r\<lparr>amount := a\<rparr> else r) (collections d)\<rparr>,
               c\<lparr>amount := a\<rparr>))"

definition prisma_collection_create :: "db \<Rightarrow> DbCollection \<Rightarrow> db_error + (db \<times> DbCollection)" where
  "prisma_collection_create d c =
     (if prisma_collection_findUnique d (userId c) (songId c) \<noteq> None then Inl UniqueConstraintFailed
      else Inr (d\<lparr>collections := collections d @ [c]\<rparr>, c))"

text \<open>\<open>createCollection\<close>, the upsert.\<close>

definition createCollection ::
  "(string \<Rightarrow> 'j option) \<Rightarrow> db \<Rightarrow> DbCollection \<Rightarrow> db_error + (db \<times> DbCollection)" where
  "createCollection jsonParse d collection =
     (let existingCollection = isInCollection d (userId collection) (songId collection) in
      if existingCollection then
        (case getCollection d (userId collection) (songId collection) of
           None \<Rightarrow> Inl CollectionNotRetrieved
         | Some res \<Rightarrow>
             prisma_collection_update d (userId collection) (songId collection)
               (amount res + amount collection))
      else
        (case getUser d (userId collection) of
           None \<Rightarrow> Inl (UserDoesNotExist (userId collection))
         | Some user \<Rightarrow>
             (case getSong jsonParse d (songId collection) of
                Inl e \<Rightarrow> Inl e
              | Inr None \<Rightarrow> Inl (SongDoesNotExist (songId collection))
              | Inr (Some sg) \<Rightarrow>
                  prisma_collection_create d
                    \<lparr>userId = userId collection, songId = songId collection,
                     amount = amount collection\<rparr>)))"

text \<open>\<open>Array.prototype.findIndex\<close>: the first index whose element passes, or \<open>-1\<close>.\<close>

fun findIndex :: "('a \<Rightarrow> bool) \<Rightarrow> 'a list \<Rightarrow> int" where
  "findIndex P [] = - 1"
| "findIndex P (x # xs) =
     (if P x then 0 else (let i = findIndex P xs in if i = - 1 then - 1 else i + 1))"

text \<open>\<open>c.user?.fid === fid\<close>: false when the row has no user.\<close>

definition user_has_fid :: "nat \<Rightarrow> DbCollection \<times> DbUser option \<Rightarrow> bool" where
  "user_has_fid f c = (case snd c of None \<Rightarrow> False | Some u \<Rightarrow> fid u = f)"

record collection_with_position =
  collection :: "(DbCollection \<times> DbUser option) option"
  position :: "int option"

definition getUserCollectionWithPosition :: "db \<Rightarrow> nat \<Rightarrow> nat \<Rightarrow> collection_with_position" where
  "getUserCollectionWithPosition d sId f =
     (let collectors = prisma_collection_findMany_desc d sId;
          position = findIndex (user_has_fid f) collectors
      in \<lparr>collection = (if position \<noteq> - 1 then Some (collectors ! nat position) else None),
          position = (if position \<noteq> - 1 then Some (position + 1) else None)\<rparr>)"

section \<open>Mint modal\<close>

subsection \<open>Numbers and strings\<close>

text \<open>
  A JavaScript number is an IEEE 754 binary64 value. A finite one is kept as the rational
  it denotes, and every non-finite one (NaN, the infinities) is \<open>None\<close>. The result of an
  arithmetic operation is the exact result rounded to the nearest binary64 value, ties
  to the even significand: \<open>round64\<close>. With \<open>2 ^ e \<le> \<bar>x\<bar> < 2 ^ (e + 1)\<close> the values near \<open>x\<close> are
  the multiples of \<open>2 ^ (e - 52)\<close>; below \<open>2 ^ (- 1022)\<close> they are the multiples of
  \<open>2 ^ (- 1074)\<close>; a result that rounds to \<open>2 ^ 1024\<close> or beyond is infinite. The two zeros
  are not told apart: nothing below divides by a computed zero.
\<close>

type_synonym number = "rat option"

datatype thrown = Err string | NonError

definition pow2 :: "int \<Rightarrow> rat" where
  "pow2 e = (if 0 \<le> e then 2 ^ nat e else 1 / 2 ^ nat (- e))"

definition roundHalfEven :: "rat \<Rightarrow> int" where
  "roundHalfEven r =
     (let f = \<lfloor>r\<rfloor>; d = r - of_int f in
      if d < 1 / 2 then f else if 1 / 2 < d then f + 1 else if even f then f else f + 1)"

text \<open>The binary exponent of a positive rational: \<open>2 ^ ilog2 x \<le> x < 2 ^ (ilog2 x + 1)\<close>.\<close>

definition ilog2 :: "rat \<Rightarrow> int" where
  "ilog2 x =
     (let (a, b) = quotient_of x; e = bitlen a - bitlen b in
      if pow2 e \<le> x then e else e - 1)"

definition round64 :: "rat \<Rightarrow> number" where
  "round64 x =
     (if x = 0 then Some 0
      else
        let e = max (ilog2 \<bar>x\<bar>) (- 1022);
            q = pow2 (e - 52);
            m = roundHalfEven (\<bar>x\<bar> / q)
        in if 1023 < e \<or> (e = 1023 \<and> m = 2 ^ 53) then None
           else Some (sgn x * (of_int m * q)))"

text \<open>
  \<open>*\<close> and \<open>+\<close>: a non-finite operand gives a non-finite result. \<open>/\<close> is only applied to two
  props, which are finite; a division by zero is non-finite.
\<close>

definition num_mul :: "number \<Rightarrow> number \<Rightarrow> number" where
  "num_mul x y = (case (x, y) of (Some a, Some b) \<Rightarrow> round64 (a * b) | _ \<Rightarrow> None)"

definition num_add :: "number \<Rightarrow> number \<Rightarrow> number" where
  "num_add x y = (case (x, y) of (Some a, Some b) \<Rightarrow> round64 (a + b) | _ \<Rightarrow> None)"

definition num_div :: "rat \<Rightarrow> rat \<Rightarrow> number" where
  "num_div a b = (if b = 0 then None else round64 (a / b))"

text \<open>
  \<open>Math.ceil\<close> and \<open>BigInt\<close> are exact on a binary64 value: \<open>BigInt\<close> throws a RangeError
  unless its argument is an integer. The text of that RangeError is the engine's; it is
  the first argument of \<open>BigInt\<close>.
\<close>

definition Math_ceil :: "number \<Rightarrow> number" where
  "Math_ceil x = (case x of None \<Rightarrow> None | Some a \<Rightarrow> Some (of_int \<lceil>a\<rceil>))"

definition BigInt :: "string \<Rightarrow> number \<Rightarrow> thrown + int" where
  "BigInt rangeError x =
     (case x of
        None \<Rightarrow> Inl (Err rangeError)
      | Some a \<Rightarrow> if of_int \<lfloor>a\<rfloor> = a then Inr \<lfloor>a\<rfloor> else Inl (Err rangeError))"

text \<open>\<open>String.prototype.includes\<close>.\<close>

fun starts_with :: "string \<Rightarrow> string \<Rightarrow> bool" where
  "starts_with s [] = True"
| "starts_with [] (c # cs) = False"
| "starts_with (x # xs) (c # cs) = (x = c \<and> starts_with xs cs)"

fun str_includes :: "string \<Rightarrow> string \<Rightarrow> bool" where
  "str_includes [] sub = (sub = [])"
| "str_includes (x # xs) sub = (starts_with (x # xs) sub \<or> str_includes xs sub)"

declare str_includes.simps [simp del]

text \<open>
  A number in a template literal: the decimal digits of an integer (JavaScript prints
  integers below \<open>10^21\<close> this way). \<open>%\<close> takes the sign of the dividend.
\<close>

fun natToString :: "nat \<Rightarrow> string" where
  "natToString n =
     (if n < 10 then [''0123456789'' ! n]
      else natToString (n div 10) @ [''0123456789'' ! (n mod 10)])"

declare natToString.simps [simp del]

definition numberToString :: "int \<Rightarrow> string" where
  "numberToString i = (if i < 0 then ''-'' @ natToString (nat (- i)) else natToString (nat i))"

definition js_rem :: "int \<Rightarrow> int \<Rightarrow> int" where
  "js_rem a b = sgn a * (\<bar>a\<bar> mod \<bar>b\<bar>)"

subsection \<open>Props, hook data and component state\<close>

datatype MintState = Initial | Confirm | Success

datatype PaymentMethod = ETH | USDC

text \<open>The status of a \<open>useWriteContract\<close> mutation and of a receipt query.\<close>

datatype write_status = WriteIdle | WritePending | WriteError | WriteSuccess

datatype receipt_status = ReceiptPending | ReceiptSuccess | ReceiptError

text \<open>
  What one render of the modal closes over: its props, the data its hooks return, and
  the engine's RangeError text. Handlers and effects read these; none of them writes.
  The numbers among them (\<open>usdPrice\<close>, \<open>ethUsd\<close>, \<open>mintQuantity\<close>) are binary64 values.
\<close>

record props =
  isOpen :: bool
  mintQuantity :: int
  songName :: string
  paymentMethod :: PaymentMethod
  userAddress :: "string option"
  tokenId :: int
  usdPrice :: rat
  ethUsd :: rat
  userFid :: "nat option"
  balanceData :: "int option"
  usdcBalance :: "int option"
  usdcAllowance :: "int option"
  allowanceTxHash :: "string option"
  allowanceError :: "string option"
  allowanceStatus :: write_status
  allowanceTxResult :: receipt_status
  mintTxHash :: "string option"
  mintError :: "string option"
  mintStatus :: write_status
  mintTxResult :: receipt_status
  rangeErrorText :: string

text \<open>The calls a handler can submit, and everything a handler does, in program order.\<close>

datatype contract_call = Approve int | Mint string int int bool

datatype action =
    Toast string
  | RefetchAllowance
  | SendCalls "contract_call list"
  | WriteContractAllowance contract_call
  | WriteContractMint contract_call int
  | GetCallsStatus string
  | SetPostMintExecuted bool
  | SetIsSendCallsPending bool
  | SetSendCallsId string
  | SetMintState MintState
  | PromptToAddMiniApp
  | CreateUser nat
  | CreateCollectionMutation nat int int
  | RefetchCollectors
  | RefetchUserCollector
  | RefetchTotalMints
  | SendNotification string string nat "nat list"
  | TrackEvent nat int int PaymentMethod number
  | ResetMint
  | OnClose

text \<open>
  A pending \<open>setTimeout\<close> callback. \<open>checkCallsStatus\<close> is a closure of the render in which
  the button was pressed: it carries the batch id, that render's props and that render's
  \<open>postMintExecuted\<close>, which its \<open>executePostMintLogic\<close> reads.
\<close>

datatype callback = CheckCallsStatus string props bool | RefetchAllowanceAndClear

text \<open>
  The state cells of the component that the handlers below write, a clock in milliseconds
  with the timers waiting on it (each with its due time), and the trace of actions so far.
  An awaited call takes no time on this clock.
\<close>

record world =
  mintState :: MintState
  postMintExecuted :: bool
  sendCallsId :: "string option"
  isSendCallsPending :: bool
  clock :: nat
  timers :: "(nat \<times> callback) list"
  trace :: "action list"

definition act :: "action \<Rightarrow> world \<Rightarrow> world" where
  "act a w = w\<lparr>trace := trace w @ [a]\<rparr>"

definition setMintState :: "MintState \<Rightarrow> world \<Rightarrow> world" where
  "setMintState v w = act (SetMintState v) (w\<lparr>mintState := v\<rparr>)"

definition setPostMintExecuted :: "bool \<Rightarrow> world \<Rightarrow> world" where
  "setPostMintExecuted v w = act (SetPostMintExecuted v) (w\<lparr>postMintExecuted := v\<rparr>)"

definition setIsSendCallsPending :: "bool \<Rightarrow> world \<Rightarrow> world" where
  "setIsSendCallsPending v w = act (SetIsSendCallsPending v) (w\<lparr>isSendCallsPending := v\<rparr>)"

definition setSendCallsId :: "string \<Rightarrow> world \<Rightarrow> world" where
  "setSendCallsId v w = act (SetSendCallsId v) (w\<lparr>sendCallsId := Some v\<rparr>)"

definition toast :: "string \<Rightarrow> world \<Rightarrow> world" where
  "toast m w = act (Toast m) w"

definition setTimeout :: "callback \<Rightarrow> nat \<Rightarrow> world \<Rightarrow> world" where
  "setTimeout cb ms w = w\<lparr>timers := timers w @ [(clock w + ms, cb)]\<rparr>"

subsection \<open>Amounts\<close>

text \<open>
  \<open>price = usdPrice / ethUsd\<close> and \<open>safePrice = price + price * 0.01\<close>. The literal \<open>0.01\<close>
  is the binary64 value nearest to 1/100.
\<close>

definition price :: "props \<Rightarrow> number" where
  "price p = num_div (usdPrice p) (ethUsd p)"

definition safePrice :: "props \<Rightarrow> number" where
  "safePrice p = num_add (price p) (num_mul (price p) (round64 (1 / 100)))"

text \<open>\<open>safePrice * amount * 10 ** 18\<close> and \<open>usdPrice * mintQuantity * 10 ** 6\<close>.\<close>

definition ethAmount :: "props \<Rightarrow> int \<Rightarrow> number" where
  "ethAmount p amt = num_mul (num_mul (safePrice p) (Some (of_int amt))) (Some (10 ^ 18))"

definition usdcAmount :: "props \<Rightarrow> number" where
  "usdcAmount p = num_mul (num_mul (Some (usdPrice p)) (Some (of_int (mintQuantity p)))) (Some (10 ^ 6))"

text \<open>The \<open>value\<close> of the mint call in \<open>handleMint\<close>.\<close>

definition mintValue :: "props \<Rightarrow> int \<Rightarrow> thrown + int" where
  "mintValue p amt =
     (if paymentMethod p = ETH then BigInt (rangeErrorText p) (Math_ceil (ethAmount p amt))
      else Inr 0)"

text \<open>The amount of the \<open>approve\<close> call, in both handlers that encode one.\<close>

definition approveAmount :: "props \<Rightarrow> thrown + int" where
  "approveAmount p = BigInt (rangeErrorText p) (usdcAmount p)"

definition requiredEth :: "props \<Rightarrow> thrown + int" where
  "requiredEth p = BigInt (rangeErrorText p) (Math_ceil (ethAmount p (mintQuantity p)))"

definition requiredUsdc :: "props \<Rightarrow> thrown + int" where
  "requiredUsdc p = BigInt (rangeErrorText p) (Math_ceil (usdcAmount p))"

definition requiredAllowance :: "props \<Rightarrow> thrown + int" where
  "requiredAllowance p = BigInt (rangeErrorText p) (Math_ceil (usdcAmount p))"

definition hasEnoughEthBalance :: "props \<Rightarrow> thrown + bool" where
  "hasEnoughEthBalance p =
     (case balanceData p of
        None \<Rightarrow> Inr False
      | Some bal \<Rightarrow>
          if userAddress p = None then Inr False
          else (case requiredEth p of Inl e \<Rightarrow> Inl e | Inr r \<Rightarrow> Inr (r \<le> bal)))"

text \<open>\<open>!usdcBalance\<close> holds of a balance that is not loaded and of the bigint zero.\<close>

definition hasEnoughUsdcBalance :: "props \<Rightarrow> thrown + bool" where
  "hasEnoughUsdcBalance p =
     (case usdcBalance p of
        None \<Rightarrow> Inr False
      | Some bal \<Rightarrow>
          if bal = 0 \<or> userAddress p = None then Inr False
          else (case requiredUsdc p of Inl e \<Rightarrow> Inl e | Inr r \<Rightarrow> Inr (r \<le> bal)))"

definition hasEnoughUsdcAllowance :: "props \<Rightarrow> thrown + bool" where
  "hasEnoughUsdcAllowance p =
     (case usdcAllowance p of
        None \<Rightarrow> Inr False
      | Some al \<Rightarrow>
          if al = 0 \<or> userAddress p = None then Inr False
          else (case requiredAllowance p of Inl e \<Rightarrow> Inl e | Inr r \<Rightarrow> Inr (r \<le> al)))"

subsection \<open>Submitting transactions\<close>

text \<open>
  \<open>handleMint\<close>: once the flag is reset, a RangeError of the \<open>value\<close> conversion is caught
  by the handler's empty \<open>catch\<close>, and nothing is written.
\<close>

definition handleMint :: "props \<Rightarrow> int \<Rightarrow> bool \<Rightarrow> world \<Rightarrow> world" where
  "handleMint p amt isWETH w =
     (case userAddress p of
        None \<Rightarrow> w
      | Some addr \<Rightarrow>
          let w1 = setPostMintExecuted False w in
          (case mintValue p amt of
             Inl e \<Rightarrow> w1
           | Inr v \<Rightarrow> act (WriteContractMint (Mint addr (tokenId p) amt isWETH) v) w1))"

definition handleApproveOnly :: "props \<Rightarrow> world \<Rightarrow> world" where
  "handleApproveOnly p w =
     (case userAddress p of
        None \<Rightarrow> w
      | Some addr \<Rightarrow>
          (case approveAmount p of
             Inl e \<Rightarrow> w
           | Inr a \<Rightarrow> act (WriteContractAllowance (Approve a)) w))"

definition sendCallsUnsupported :: string where
  \<open>sendCallsUnsupported = ''Method "wallet_sendCalls" is not supported''\<close>

definition userRejected :: string where
  "userRejected = ''The user rejected the request''"

text \<open>The \<open>catch\<close> of \<open>handleApproveAndMintWithSendCalls\<close>.\<close>

definition sendCallsCatch :: "props \<Rightarrow> thrown \<Rightarrow> world \<Rightarrow> world" where
  "sendCallsCatch p error w =
     (let w1 = setIsSendCallsPending False w in
      case error of
        NonError \<Rightarrow> w1
      | Err message \<Rightarrow>
          if str_includes message sendCallsUnsupported then handleApproveOnly p w1
          else if \<not> str_includes message userRejected then toast message w1
          else w1)"

text \<open>
  \<open>handleApproveAndMintWithSendCalls\<close>. Its second argument is what \<open>sendCalls\<close> does when
  it is reached: it throws, or it returns the batch id.
\<close>

definition handleApproveAndMintWithSendCalls :: "props \<Rightarrow> thrown + string \<Rightarrow> world \<Rightarrow> world" where
  "handleApproveAndMintWithSendCalls p sendCallsResult w =
     (case userAddress p of
        None \<Rightarrow> w
      | Some addr \<Rightarrow>
          let w1 = setIsSendCallsPending True (setPostMintExecuted False w) in
          (case approveAmount p of
             Inl e \<Rightarrow> sendCallsCatch p e w1
           | Inr a \<Rightarrow>
               let w2 = act (SendCalls [Approve a, Mint addr (tokenId p) (mintQuantity p) False]) w1 in
               (case sendCallsResult of
                  Inl e \<Rightarrow> sendCallsCatch p e w2
                | Inr i \<Rightarrow>
                    setTimeout (CheckCallsStatus i p (postMintExecuted w)) 2000
                      (setSendCallsId i w2))))"

subsection \<open>The post-mint pipeline\<close>

datatype 'a outcome = Throws | Returns 'a

record collection_details =
  details_position :: "int option"
  details_amount :: "int option"

text \<open>What the pipeline's awaited calls do in one run.\<close>

record pipeline_env =
  promptToAddMiniApp :: "unit outcome"
  createUserMutation :: "unit outcome"
  createCollectionMutation :: "collection_details option outcome"
  sendNotificationMutation :: "unit outcome"

text \<open>\<open>!userFid\<close> holds of an absent fid and of the fid zero.\<close>

definition truthy_fid :: "nat option \<Rightarrow> bool" where
  "truthy_fid f = (case f of None \<Rightarrow> False | Some n \<Rightarrow> n \<noteq> 0)"

definition ordinalSuffix :: "int \<Rightarrow> string" where
  "ordinalSuffix n =
     (if js_rem n 10 = 1 \<and> js_rem n 100 \<noteq> 11 then ''st''
      else if js_rem n 10 = 2 \<and> js_rem n 100 \<noteq> 12 then ''nd''
      else if js_rem n 10 = 3 \<and> js_rem n 100 \<noteq> 13 then ''rd''
      else ''th'')"

text \<open>\<open>collectionDetails?.position\<close> and the text built from it.\<close>

definition newUserPosition :: "collection_details option \<Rightarrow> int option" where
  "newUserPosition cd = (case cd of None \<Rightarrow> None | Some d \<Rightarrow> details_position d)"

definition leaderboardText :: "int option \<Rightarrow> string" where
  "leaderboardText pos =
     (case pos of
        None \<Rightarrow> ''You're now on the leaderboard''
      | Some n \<Rightarrow>
          if n \<noteq> 0 then ''You're in '' @ numberToString n @ ordinalSuffix n @ '' place on the leaderboard''
          else ''You're now on the leaderboard'')"

definition notificationTitle :: "props \<Rightarrow> string" where
  "notificationTitle p =
     ''You minted '' @ numberToString (mintQuantity p) @ '' '' @
     (if mintQuantity p > 1 then ''editions'' else ''edition'') @ '' of '' @ songName p @ ''!''"

definition signUpUser :: "props \<Rightarrow> pipeline_env \<Rightarrow> world \<Rightarrow> world" where
  "signUpUser p env w =
     (case userFid p of
        None \<Rightarrow> w
      | Some f \<Rightarrow>
          if f = 0 then w
          else (case createUserMutation env of
                  Returns u \<Rightarrow> act (CreateUser f) w
                | Throws \<Rightarrow> toast ''Error signing up user'' (act (CreateUser f) w)))"

text \<open>The pipeline's \<open>createCollection\<close>: the details it returns, and the world after it.\<close>

definition createCollectionStep ::
  "props \<Rightarrow> nat \<Rightarrow> pipeline_env \<Rightarrow> world \<Rightarrow> collection_details option \<times> world" where
  "createCollectionStep p f env w =
     (let w1 = act (CreateCollectionMutation f (tokenId p) (mintQuantity p)) w in
      case createCollectionMutation env of
        Returns collectionDetails \<Rightarrow>
          (collectionDetails,
           act RefetchTotalMints (act RefetchUserCollector (act RefetchCollectors w1)))
      | Throws \<Rightarrow> (None, toast ''Error creating collection'' w1))"

definition sendNotification ::
  "props \<Rightarrow> nat \<Rightarrow> pipeline_env \<Rightarrow> collection_details option \<Rightarrow> world \<Rightarrow> world" where
  "sendNotification p f env collectionDetails w =
     (let w1 = act (SendNotification (notificationTitle p)
                      (leaderboardText (newUserPosition collectionDetails)) 0 [f]) w in
      case sendNotificationMutation env of
        Returns u \<Rightarrow> w1
      | Throws \<Rightarrow> toast ''Error sending notification'' w1)"

text \<open>
  \<open>executePostMintLogic\<close>, as the closure of a render whose \<open>postMintExecuted\<close> was
  \<open>executed\<close>. The prompt's failure is caught by an empty \<open>catch\<close>.
\<close>

definition executePostMintLogic :: "props \<Rightarrow> bool \<Rightarrow> pipeline_env \<Rightarrow> world \<Rightarrow> world" where
  "executePostMintLogic p executed env w =
     (case userFid p of
        None \<Rightarrow> w
      | Some f \<Rightarrow>
          if f = 0 \<or> executed then w
          else
            let w1 = setPostMintExecuted True w;
                w2 = act PromptToAddMiniApp w1;
                w3 = signUpUser p env w2;
                (collectionDetails, w4) = createCollectionStep p f env w3;
                w5 = sendNotification p f env collectionDetails w4
            in act (TrackEvent f (tokenId p) (mintQuantity p) (paymentMethod p)
                      (num_mul (Some (usdPrice p)) (Some (of_int (mintQuantity p))))) w5)"

subsection \<open>Polling a bundled batch\<close>

datatype calls_status = CallsSuccess | CallsPending | CallsFailure | CallsOther

text \<open>
  The \<open>try\<close> of \<open>checkCallsStatus\<close> covers its whole body, the awaited pipeline included.
  Every call of the pipeline but the last sits in a \<open>try\<close> of its own, so the pipeline
  rejects only when it runs and its analytics call throws.
\<close>

definition pipelineRejects :: "props \<Rightarrow> bool \<Rightarrow> unit outcome \<Rightarrow> bool" where
  "pipelineRejects p executed analytics =
     (truthy_fid (userFid p) \<and> \<not> executed \<and> analytics = Throws)"

text \<open>
  \<open>checkCallsStatus\<close>, given what \<open>getCallsStatus\<close> does this time and what the analytics
  call does if the pipeline reaches it. A rejected pipeline ends in the \<open>catch\<close>, before
  the state is set.
\<close>

definition checkCallsStatus ::
  "string \<Rightarrow> props \<Rightarrow> bool \<Rightarrow> calls_status outcome \<Rightarrow> pipeline_env \<Rightarrow> unit outcome \<Rightarrow> world \<Rightarrow> world" where
  "checkCallsStatus i p executed result env analytics w =
     (let w1 = act (GetCallsStatus i) w in
      case result of
        Throws \<Rightarrow> setTimeout RefetchAllowanceAndClear 5000 w1
      | Returns CallsSuccess \<Rightarrow>
          let w2 = executePostMintLogic p executed env
                     (act RefetchAllowance (setIsSendCallsPending False w1))
          in if pipelineRejects p executed analytics
             then setTimeout RefetchAllowanceAndClear 5000 w2
             else setMintState Success w2
      | Returns CallsPending \<Rightarrow> setTimeout (CheckCallsStatus i p executed) 2000 w1
      | Returns CallsFailure \<Rightarrow> toast ''Transaction failed'' (setIsSendCallsPending False w1)
      | Returns CallsOther \<Rightarrow> w1)"

definition runCallback ::
  "callback \<Rightarrow> calls_status outcome \<Rightarrow> pipeline_env \<Rightarrow> unit outcome \<Rightarrow> world \<Rightarrow> world" where
  "runCallback cb result env analytics w =
     (case cb of
        CheckCallsStatus i p executed \<Rightarrow> checkCallsStatus i p executed result env analytics w
      | RefetchAllowanceAndClear \<Rightarrow> setIsSendCallsPending False (act RefetchAllowance w))"

text \<open>
  Time passes, and the oldest timer runs once the clock has reached its due time (the
  flows here never keep two timers waiting). A timer that is not due does not run.
\<close>

definition tick :: "nat \<Rightarrow> world \<Rightarrow> world" where
  "tick ms w = w\<lparr>clock := clock w + ms\<rparr>"

definition fireTimer ::
  "calls_status outcome \<Rightarrow> pipeline_env \<Rightarrow> unit outcome \<Rightarrow> world \<Rightarrow> world option" where
  "fireTimer result env analytics w =
     (case timers w of
        [] \<Rightarrow> None
      | (due, cb) # rest \<Rightarrow>
          if clock w < due then None
          else Some (runCallback cb result env analytics (w\<lparr>timers := rest\<rparr>)))"


subsection \<open>Effects\<close>

definition allowanceSuccessEffect :: "props \<Rightarrow> world \<Rightarrow> world" where
  "allowanceSuccessEffect p w =
     (if allowanceTxResult p = ReceiptSuccess
      then handleMint p (mintQuantity p) False (act RefetchAllowance w)
      else w)"

definition mintErrorEffect :: "props \<Rightarrow> world \<Rightarrow> world" where
  "mintErrorEffect p w =
     (case mintError p of
        None \<Rightarrow> w
      | Some message \<Rightarrow>
          let w1 = setPostMintExecuted False w in
          if \<not> str_includes message userRejected then toast message w1 else w1)"

definition allowanceErrorEffect :: "props \<Rightarrow> world \<Rightarrow> world" where
  "allowanceErrorEffect p w =
     (case allowanceError p of
        None \<Rightarrow> w
      | Some message \<Rightarrow>
          if \<not> str_includes message userRejected then toast message w else w)"

definition mintStatusEffect :: "props \<Rightarrow> world \<Rightarrow> world" where
  "mintStatusEffect p w =
     (case mintStatus p of
        WritePending \<Rightarrow> setMintState Confirm w
      | WriteError \<Rightarrow> setMintState Initial w
      | _ \<Rightarrow> w)"

text \<open>The effect on the mint receipt.\<close>

definition postMintEffect :: "props \<Rightarrow> pipeline_env \<Rightarrow> world \<Rightarrow> world" where
  "postMintEffect p env w =
     (if \<not> postMintExecuted w then
        (if mintTxResult p = ReceiptSuccess \<and> mintState w \<noteq> Success \<and> \<not> postMintExecuted w
         then executePostMintLogic p (postMintExecuted w) env (setMintState Success w)
         else if mintTxResult p = ReceiptError \<and> mintState w \<noteq> Initial
         then setMintState Initial (toast ''Minting failed'' w)
         else w)
      else w)"

definition openEffect :: "props \<Rightarrow> world \<Rightarrow> world" where
  "openEffect p w = (if isOpen p then setPostMintExecuted False w else w)"

definition refetchOnOpenEffect :: "props \<Rightarrow> world \<Rightarrow> world" where
  "refetchOnOpenEffect p w = act RefetchAllowance w"

definition handleClose :: "props \<Rightarrow> world \<Rightarrow> world" where
  "handleClose p w = act OnClose (act ResetMint (setMintState Initial w))"

subsection \<open>The mint button\<close>

record button =
  disabled :: bool
  label :: string

definition ethButton :: "props \<Rightarrow> world \<Rightarrow> thrown + button" where
  "ethButton p w =
     (case hasEnoughEthBalance p of
        Inl e \<Rightarrow> Inl e
      | Inr enough \<Rightarrow>
          Inr \<lparr>disabled = (\<not> enough \<or> mintStatus p = WritePending \<or>
                            (mintTxHash p \<noteq> None \<and> mintTxResult p = ReceiptPending)),
               label = (if \<not> enough then ''INSUFFICIENT ETH BALANCE'' else ''MINT WITH ETH'')\<rparr>)"

definition usdcButton :: "props \<Rightarrow> world \<Rightarrow> thrown + button" where
  "usdcButton p w =
     (case hasEnoughUsdcBalance p of
        Inl e \<Rightarrow> Inl e
      | Inr enough \<Rightarrow>
          Inr \<lparr>disabled = (\<not> enough \<or> isSendCallsPending w \<or> allowanceStatus p = WritePending \<or>
                            (allowanceTxHash p \<noteq> None \<and> allowanceTxResult p = ReceiptPending) \<or>
                            mintStatus p = WritePending \<or>
                            (mintTxHash p \<noteq> None \<and> mintTxResult p = ReceiptPending)),
               label = (if \<not> enough then ''INSUFFICIENT USDC BALANCE''
                        else if isSendCallsPending w then ''MINTING''
                        else if allowanceStatus p = WritePending \<or>
                                (allowanceTxHash p \<noteq> None \<and> allowanceTxResult p = ReceiptPending)
                        then ''APPROVING''
                        else ''MINT WITH USDC'')\<rparr>)"

text \<open>
  The button the modal shows: none unless it is open and in the \<open>Initial\<close> state; an
  exception while rendering is \<open>Inl\<close>.
\<close>

definition mintButton :: "props \<Rightarrow> world \<Rightarrow> thrown + button option" where
  "mintButton p w =
     (if isOpen p \<and> mintState w = Initial then
        (case (if paymentMethod p = ETH then ethButton p w else usdcButton p w) of
           Inl e \<Rightarrow> Inl e
         | Inr b \<Rightarrow> Inr (Some b))
      else Inr None)"

text \<open>The button's \<open>onClick\<close>. An exception in it leaves the world as it was.\<close>

definition onClickMint :: "props \<Rightarrow> thrown + string \<Rightarrow> world \<Rightarrow> world" where
  "onClickMint p sendCallsResult w =
     (if paymentMethod p = ETH then handleMint p (mintQuantity p) False w
      else (case hasEnoughUsdcAllowance p of
              Inl e \<Rightarrow> w
            | Inr enough \<Rightarrow>
                if \<not> enough then handleApproveAndMintWithSendCalls p sendCallsResult w
                else handleMint p (mintQuantity p) False w))"

text \<open>Pressing the button: a button that is not shown or is disabled does nothing.\<close>

definition pressMintButton :: "props \<Rightarrow> thrown + string \<Rightarrow> world \<Rightarrow> world" where
  "pressMintButton p sendCallsResult w =
     (case mintButton p w of
        Inr (Some b) \<Rightarrow> if disabled b then w else onClickMint p sendCallsResult w
      | _ \<Rightarrow> w)"

subsection \<open>Events\<close>

text \<open>
  Everything that can happen to the modal between two renders: an effect runs, the
  button is pressed, the modal is closed (by \<open>handleClose\<close>, or by the Escape key, which
  calls \<open>onClose\<close> alone), time passes, a timer fires, the wallet answers a mint request,
  the chain answers with the receipt of a mint transaction. The last two change the data
  of the hooks only.
\<close>

datatype event =
    OpenEffect
  | RefetchOnOpenEffect
  | PressMintButton "thrown + string"
  | AllowanceSuccessEffect
  | AllowanceErrorEffect
  | MintErrorEffect
  | MintStatusEffect
  | PostMintEffect pipeline_env
  | HandleClose
  | EscapeKey
  | Tick nat
  | FireTimer "calls_status outcome" pipeline_env "unit outcome"
  | WalletAnswersMint "string + string"
  | MintReceiptArrives bool

definition step :: "props \<Rightarrow> event \<Rightarrow> world \<Rightarrow> world" where
  "step p e w =
     (case e of
        OpenEffect \<Rightarrow> openEffect p w
      | RefetchOnOpenEffect \<Rightarrow> refetchOnOpenEffect p w
      | PressMintButton r \<Rightarrow> pressMintButton p r w
      | AllowanceSuccessEffect \<Rightarrow> allowanceSuccessEffect p w
      | AllowanceErrorEffect \<Rightarrow> allowanceErrorEffect p w
      | MintErrorEffect \<Rightarrow> mintErrorEffect p w
      | MintStatusEffect \<Rightarrow> mintStatusEffect p w
      | PostMintEffect env \<Rightarrow> postMintEffect p env w
      | HandleClose \<Rightarrow> handleClose p w
      | EscapeKey \<Rightarrow> act OnClose w
      | Tick ms \<Rightarrow> tick ms w
      | FireTimer result env analytics \<Rightarrow>
          (case fireTimer result env analytics w of None \<Rightarrow> w | Some w' \<Rightarrow> w')
      | WalletAnswersMint r \<Rightarrow> w
      | MintReceiptArrives ok \<Rightarrow> w)"

text \<open>How often the pipeline has started: it starts with the prompt.\<close>

definition pipelineRuns :: "world \<Rightarrow> nat" where
  "pipelineRuns w = count_list (trace w) PromptToAddMiniApp"

subsection \<open>The mint transaction behind the hooks\<close>

text \<open>
  The data that \<open>useWriteContract\<close> and \<open>useWaitForTransactionReceipt\<close> hold for the mint,
  as the wallet library keeps it between renders. \<open>writeContract\<close> starts a request: the
  status is pending and the hash and the error of the request before are gone. The wallet
  answers a pending request with a transaction hash (status success) or with an error
  (status error). The receipt of a hash is pending until the chain answers, once, with
  success or failure; without a hash there is no receipt. \<open>reset\<close> forgets the request.
\<close>

record hooks =
  mintWrite :: write_status
  mintHash :: "string option"
  mintFailure :: "string option"
  mintReceipt :: receipt_status

definition idleHooks :: hooks where
  "idleHooks = \<lparr>mintWrite = WriteIdle, mintHash = None, mintFailure = None, mintReceipt = ReceiptPending\<rparr>"

definition hook :: "action \<Rightarrow> hooks \<Rightarrow> hooks" where
  "hook a h =
     (case a of
        WriteContractMint c v \<Rightarrow> idleHooks\<lparr>mintWrite := WritePending\<rparr>
      | ResetMint \<Rightarrow> idleHooks
      | _ \<Rightarrow> h)"

definition walletAnswersMint :: "string + string \<Rightarrow> hooks \<Rightarrow> hooks" where
  "walletAnswersMint r h =
     (if mintWrite h = WritePending then
        (case r of
           Inl message \<Rightarrow> h\<lparr>mintWrite := WriteError, mintFailure := Some message\<rparr>
         | Inr tx \<Rightarrow> h\<lparr>mintWrite := WriteSuccess, mintHash := Some tx\<rparr>)
      else h)"

definition mintReceiptArrives :: "bool \<Rightarrow> hooks \<Rightarrow> hooks" where
  "mintReceiptArrives ok h =
     (if mintHash h \<noteq> None \<and> mintReceipt h = ReceiptPending
      then h\<lparr>mintReceipt := (if ok then ReceiptSuccess else ReceiptError)\<rparr>
      else h)"

text \<open>The props of a render, with the mint data the hooks hold at that moment.\<close>

definition render :: "props \<Rightarrow> hooks \<Rightarrow> props" where
  "render p h =
     p\<lparr>mintTxHash := mintHash h, mintError := mintFailure h, mintStatus := mintWrite h,
       mintTxResult := mintReceipt h\<rparr>"

text \<open>
  One event of a session: the handler or effect runs on the props of the current render,
  and the requests it has made (the actions it has added to the trace) reach the hooks.
\<close>

definition sessionStep :: "props \<Rightarrow> event \<Rightarrow> hooks \<times> world \<Rightarrow> hooks \<times> world" where
  "sessionStep p e s =
     (case s of (h, w) \<Rightarrow>
        (case e of
           WalletAnswersMint r \<Rightarrow> (walletAnswersMint r h, w)
         | MintReceiptArrives ok \<Rightarrow> (mintReceiptArrives ok h, w)
         | _ \<Rightarrow>
             let w' = step (render p h) e w
             in (fold hook (drop (length (trace w)) (trace w')) h, w')))"

text \<open>A run: each event with the props the parent passes to the render it happens in.\<close>

fun run :: "(props \<times> event) list \<Rightarrow> hooks \<times> world \<Rightarrow> hooks \<times> world" where
  "run [] s = s"
| "run ((p, e) # es) s = run es (sessionStep p e s)"

subsection \<open>Counting successful mints\<close>

text \<open>
  The events that call \<open>setPostMintExecuted(false)\<close>: the effect on \<open>isOpen\<close>, a press of
  the mint button and the effect on the approval receipt (both through \<open>handleMint\<close> or the
  bundled handler), and the effect on a mint error.
\<close>

fun resets_guard :: "event \<Rightarrow> bool" where
  "resets_guard OpenEffect = True"
| "resets_guard (PressMintButton r) = True"
| "resets_guard AllowanceSuccessEffect = True"
| "resets_guard MintErrorEffect = True"
| "resets_guard e = False"

text \<open>
  A mint succeeds when the chain answers the pending receipt of a mint transaction with
  success, or when a poll that is due finds its bundled batch successful.
\<close>

definition pollIsDue :: "world \<Rightarrow> bool" where
  "pollIsDue w =
     (case timers w of
        [] \<Rightarrow> False
      | (due, cb) # rest \<Rightarrow>
          due \<le> clock w \<and>
          (case cb of CheckCallsStatus i q executed \<Rightarrow> True | RefetchAllowanceAndClear \<Rightarrow> False))"

definition mintSucceeds :: "event \<Rightarrow> hooks \<times> world \<Rightarrow> bool" where
  "mintSucceeds e s =
     (case s of (h, w) \<Rightarrow>
        (case e of
           MintReceiptArrives ok \<Rightarrow> ok \<and> mintHash h \<noteq> None \<and> mintReceipt h = ReceiptPending
         | FireTimer result env analytics \<Rightarrow> result = Returns CallsSuccess \<and> pollIsDue w
         | _ \<Rightarrow> False))"

fun successfulMints :: "(props \<times> event) list \<Rightarrow> hooks \<times> world \<Rightarrow> nat" where
  "successfulMints [] s = 0"
| "successfulMints ((p, e) # es) s =
     (if mintSucceeds e s then 1 else 0) + successfulMints es (sessionStep p e s)"

text \<open>
  A confirmed mint transaction that the component has not yet answered: its receipt
  reports success and the state is not yet \<open>Success\<close>.
\<close>

definition unanswered :: "hooks \<times> world \<Rightarrow> nat" where
  "unanswered s =
     (case s of (h, w) \<Rightarrow> if mintReceipt h = ReceiptSuccess \<and> mintState w \<noteq> Success then 1 else 0)"

text \<open>
  What the wallet library keeps true of its data: a hash belongs to a request that
  succeeded, and a receipt that is no longer pending belongs to a hash.
\<close>

definition hooksConsistent :: "hooks \<Rightarrow> bool" where
  "hooksConsistent h =
     ((mintHash h = None \<or> mintWrite h = WriteSuccess) \<and>
      (mintReceipt h = ReceiptPending \<or> mintHash h \<noteq> None))"

section \<open>Example values\<close>

text \<open>
  A store with one song and three users, two of whom collected the song; a render of
  the open modal for a buyer who pays in the stablecoin; a fresh component; a run of the
  pipeline in which every call succeeds; and a session in which the approval is confirmed,
  the mint goes out and is confirmed, the effect on the receipt fires three times, the
  modal is closed and opened again, and the effect fires once more.
\<close>

definition example_db :: db where
  "example_db =
     \<lparr>users = [\<lparr>fid = 10, notificationDetails = None\<rparr>, \<lparr>fid = 20, notificationDetails = None\<rparr>,
               \<lparr>fid = 30, notificationDetails = None\<rparr>],
      songs = [\<lparr>song_id = 7, title = ''a'', startDate = [], endDate = [], feat = None\<rparr>],
      collections = [\<lparr>userId = 10, songId = 7, amount = 2\<rparr>, \<lparr>userId = 20, songId = 7, amount = 5\<rparr>,
                     \<lparr>userId = 30, songId = 8, amount = 9\<rparr>]\<rparr>"

definition example_props :: props where
  "example_props =
     \<lparr>isOpen = True, mintQuantity = 2, songName = ''Song'', paymentMethod = USDC,
      userAddress = Some ''0xabc'', tokenId = 7, usdPrice = 4, ethUsd = 2000,
      userFid = Some 10, balanceData = Some 0, usdcBalance = Some 10000000,
      usdcAllowance = None, allowanceTxHash = None, allowanceError = None,
      allowanceStatus = WriteIdle, allowanceTxResult = ReceiptPending, mintTxHash = None,
      mintError = None, mintStatus = WriteIdle, mintTxResult = ReceiptPending,
      rangeErrorText = ''not an integer''\<rparr>"

definition example_world :: world where
  "example_world =
     \<lparr>mintState = Initial, postMintExecuted = False, sendCallsId = None,
      isSendCallsPending = False, clock = 0, timers = [], trace = []\<rparr>"

definition example_env :: pipeline_env where
  "example_env =
     \<lparr>promptToAddMiniApp = Returns (), createUserMutation = Returns (),
      createCollectionMutation = Returns (Some \<lparr>details_position = Some 2, details_amount = Some 2\<rparr>),
      sendNotificationMutation = Returns ()\<rparr>"

definition example_session :: "(props \<times> event) list" where
  "example_session =
     [(example_props\<lparr>allowanceTxResult := ReceiptSuccess\<rparr>, AllowanceSuccessEffect),
      (example_props, MintStatusEffect),
      (example_props, WalletAnswersMint (Inr ''0xf00d'')),
      (example_props, MintReceiptArrives True),
      (example_props, PostMintEffect example_env),
      (example_props, PostMintEffect example_env),
      (example_props, PostMintEffect example_env),
      (example_props, HandleClose),
      (example_props, OpenEffect),
      (example_props, PostMintEffect example_env)]"

section \<open>The collection upsert\<close>

lemma find_update_Some:
  "find (\<lambda>c. userId c = u \<and> songId c = s) xs = Some c \<Longrightarrow>
   find (\<lambda>c. userId c = u \<and> songId c = s)
     (map (\<lambda>r. if userId r = u \<and> songId r = s then r\<lparr>amount := a\<rparr> else r) xs)
   = Some (c\<lparr>amount := a\<rparr>)"
  by (induction xs) (auto split: if_splits)

lemma find_update_None:
  "find (\<lambda>c. userId c = u \<and> songId c = s) xs = None \<Longrightarrow>
   map (\<lambda>r. if userId r = u \<and> songId r = s then r\<lparr>amount := a\<rparr> else r) xs = xs"
  by (induction xs) (auto split: if_splits)

lemma update_twice:
  "map (\<lambda>r. if userId r = u \<and> songId r = s then r\<lparr>amount := b\<rparr> else r)
     (map (\<lambda>r. if userId r = u \<and> songId r = s then r\<lparr>amount := a\<rparr> else r) xs)
   = map (\<lambda>r. if userId r = u \<and> songId r = s then r\<lparr>amount := b\<rparr> else r) xs"
  by (induction xs) auto

lemma find_snoc_None:
  "find P xs = None \<Longrightarrow> find P (xs @ [x]) = (if P x then Some x else None)"
  by (induction xs) (auto split: if_splits)

text \<open>The repeat path: the row is there, and its amount grows by the minted amount.\<close>

lemma createCollection_repeat:
  assumes "getCollection d u s = Some res"
  shows "createCollection jp d \<lparr>userId = u, songId = s, amount = a\<rparr> =
           Inr (d\<lparr>collections :=
                   map (\<lambda>r. if userId r = u \<and> songId r = s then r\<lparr>amount := amount res + a\<rparr> else r)
                     (collections d)\<rparr>,
                res\<lparr>amount := amount res + a\<rparr>)"
  using assms
  by (simp add: createCollection_def isInCollection_def getCollection_def
      prisma_collection_update_def split: option.splits)

lemma getCollection_after_repeat:
  assumes "getCollection d u s = Some res"
  shows "getCollection
           (d\<lparr>collections :=
                map (\<lambda>r. if userId r = u \<and> songId r = s then r\<lparr>amount := b\<rparr> else r) (collections d)\<rparr>)
           u s = Some (res\<lparr>amount := b\<rparr>)"
  using assms by (simp add: getCollection_def prisma_collection_findUnique_def find_update_Some)

text \<open>The first-mint path: no row yet, the user and the song are there.\<close>

lemma createCollection_first:
  assumes "getCollection d u s = None" "getUser d u = Some usr" "getSong jp d s = Inr (Some sg)"
  shows "createCollection jp d \<lparr>userId = u, songId = s, amount = a\<rparr> =
           Inr (d\<lparr>collections := collections d @ [\<lparr>userId = u, songId = s, amount = a\<rparr>]\<rparr>,
                \<lparr>userId = u, songId = s, amount = a\<rparr>)"
  using assms
  by (simp add: createCollection_def isInCollection_def getCollection_def prisma_collection_create_def)

lemma getCollection_after_first:
  assumes "getCollection d u s = None"
  shows "getCollection (d\<lparr>collections := collections d @ [\<lparr>userId = u, songId = s, amount = a\<rparr>]\<rparr>) u s
         = Some \<lparr>userId = u, songId = s, amount = a\<rparr>"
  using assms by (simp add: getCollection_def prisma_collection_findUnique_def find_snoc_None)

lemma createCollection_no_user:
  assumes "getCollection d u s = None" "getUser d u = None"
  shows "createCollection jp d \<lparr>userId = u, songId = s, amount = a\<rparr> = Inl (UserDoesNotExist u)"
  using assms by (simp add: createCollection_def isInCollection_def getCollection_def)

lemma createCollection_no_song:
  assumes "getCollection d u s = None" "getUser d u = Some usr" "getSong jp d s = Inr None"
  shows "createCollection jp d \<lparr>userId = u, songId = s, amount = a\<rparr> = Inl (SongDoesNotExist s)"
  using assms by (simp add: createCollection_def isInCollection_def getCollection_def)

lemma createCollection_song_error:
  assumes "getCollection d u s = None" "getUser d u = Some usr" "getSong jp d s = Inl e"
  shows "createCollection jp d \<lparr>userId = u, songId = s, amount = a\<rparr> = Inl e"
  using assms by (simp add: createCollection_def isInCollection_def getCollection_def)

text \<open>
  Minting \<open>a\<close> and then \<open>b\<close> is minting \<open>a + b\<close> once: the same store, the same returned
  row, and the same exception when the first mint throws.
\<close>

lemma createCollection_twice:
  "(case createCollection jp d \<lparr>userId = u, songId = s, amount = a\<rparr> of
      Inl e \<Rightarrow> Inl e
    | Inr (d1, r1) \<Rightarrow> createCollection jp d1 \<lparr>userId = u, songId = s, amount = b\<rparr>)
   = createCollection jp d \<lparr>userId = u, songId = s, amount = a + b\<rparr>"
proof (cases "getCollection d u s")
  case (Some res)
  show ?thesis
    by (simp add: createCollection_repeat [OF Some]
        createCollection_repeat [OF getCollection_after_repeat [OF Some]] update_twice add.assoc)
next
  case None
  show ?thesis
  proof (cases "getUser d u")
    case no_user: None
    show ?thesis by (simp add: createCollection_no_user [OF None no_user])
  next
    case (Some usr)
    show ?thesis
    proof (cases "getSong jp d s")
      case (Inl e)
      show ?thesis by (simp add: createCollection_song_error [OF None Some Inl])
    next
      case (Inr found)
      show ?thesis
      proof (cases found)
        case no_song: None
        with Inr have "getSong jp d s = Inr None" by simp
        then show ?thesis by (simp add: createCollection_no_song [OF None Some])
      next
        case have_song: (Some sg)
        with Inr have sg: "getSong jp d s = Inr (Some sg)" by simp
        have none: "find (\<lambda>c. userId c = u \<and> songId c = s) (collections d) = None"
          using None by (simp add: getCollection_def prisma_collection_findUnique_def)
        show ?thesis
          by (simp add: createCollection_first [OF None Some sg]
              createCollection_repeat [OF getCollection_after_first [OF None]]
              find_update_None [OF none])
      qed
    qed
  qed
qed

text \<open>
  Claim C7. The upsert accumulates. A first mint of a song by a user (no row yet, the
  user and the song in the store) creates the row with the minted amount; a repeat mint
  adds its amount to the stored amount; and minting \<open>a\<close> then \<open>b\<close> leaves the same store
  and returns the same row as minting \<open>a + b\<close> once.
\<close>

theorem createCollection_accumulates:
  "(getCollection d u s = None \<and> getUser d u = Some usr \<and> getSong jp d s = Inr (Some sg) \<longrightarrow>
      (\<exists>d1. createCollection jp d \<lparr>userId = u, songId = s, amount = a\<rparr>
               = Inr (d1, \<lparr>userId = u, songId = s, amount = a\<rparr>)
           \<and> getCollection d1 u s = Some \<lparr>userId = u, songId = s, amount = a\<rparr>))
   \<and> (getCollection d u s = Some res \<longrightarrow>
      (\<exists>d1. createCollection jp d \<lparr>userId = u, songId = s, amount = a\<rparr>
               = Inr (d1, res\<lparr>amount := amount res + a\<rparr>)
           \<and> getCollection d1 u s = Some (res\<lparr>amount := amount res + a\<rparr>)))
   \<and> (case createCollection jp d \<lparr>userId = u, songId = s, amount = a\<rparr> of
         Inl e \<Rightarrow> Inl e
       | Inr (d1, r1) \<Rightarrow> createCollection jp d1 \<lparr>userId = u, songId = s, amount = b\<rparr>)
      = createCollection jp d \<lparr>userId = u, songId = s, amount = a + b\<rparr>"
proof (intro conjI impI)
  assume h: "getCollection d u s = None \<and> getUser d u = Some usr \<and> getSong jp d s = Inr (Some sg)"
  then have n: "getCollection d u s = None" and us: "getUser d u = Some usr"
    and sg: "getSong jp d s = Inr (Some sg)" by simp_all
  show "\<exists>d1. createCollection jp d \<lparr>userId = u, songId = s, amount = a\<rparr>
               = Inr (d1, \<lparr>userId = u, songId = s, amount = a\<rparr>)
           \<and> getCollection d1 u s = Some \<lparr>userId = u, songId = s, amount = a\<rparr>"
    using createCollection_first [OF n us sg] getCollection_after_first [OF n] by blast
next
  assume r: "getCollection d u s = Some res"
  show "\<exists>d1. createCollection jp d \<lparr>userId = u, songId = s, amount = a\<rparr>
               = Inr (d1, res\<lparr>amount := amount res + a\<rparr>)
           \<and> getCollection d1 u s = Some (res\<lparr>amount := amount res + a\<rparr>)"
    using createCollection_repeat [OF r] getCollection_after_repeat [OF r] by blast
next
  show "(case createCollection jp d \<lparr>userId = u, songId = s, amount = a\<rparr> of
         Inl e \<Rightarrow> Inl e
       | Inr (d1, r1) \<Rightarrow> createCollection jp d1 \<lparr>userId = u, songId = s, amount = b\<rparr>)
      = createCollection jp d \<lparr>userId = u, songId = s, amount = a + b\<rparr>"
    by (rule createCollection_twice)
qed

lemma example_db_lookups:
  "getCollection example_db 30 7 = None"
  "getUser example_db 30 = Some \<lparr>fid = 30, notificationDetails = None\<rparr>"
  "getCollection example_db 10 7 = Some \<lparr>userId = 10, songId = 7, amount = 2\<rparr>"
  "getCollection example_db 40 7 = None"
  "getUser example_db 40 = None"
  "getCollection example_db 30 9 = None"
  by (simp_all add: example_db_def getCollection_def getUser_def prisma_collection_findUnique_def
      prisma_user_findUnique_def)

lemma example_db_songs:
  "getSong jp example_db 7 =
     Inr (Some \<lparr>song = \<lparr>song_id = 7, title = ''a'', startDate = [], endDate = [], feat = None\<rparr>,
               parsedFeat = None,
               collectors = [(\<lparr>userId = 10, songId = 7, amount = 2\<rparr>, Some \<lparr>fid = 10, notificationDetails = None\<rparr>),
                             (\<lparr>userId = 20, songId = 7, amount = 5\<rparr>, Some \<lparr>fid = 20, notificationDetails = None\<rparr>)]\<rparr>)"
  "getSong jp example_db 9 = Inr None"
  by (simp_all add: example_db_def getSong_def prisma_song_findUnique_def include_user_def
      prisma_user_findUnique_def)

text \<open>
  In the example store: user 30 mints song 7 for the first time with amount 3 and the
  row holds 3; user 10, who holds 2, mints 3 and then 4 and holds 9, as after minting 7.
\<close>

theorem createCollection_accumulates_witness:
  "(\<exists>d1. createCollection Some example_db \<lparr>userId = 30, songId = 7, amount = 3\<rparr>
            = Inr (d1, \<lparr>userId = 30, songId = 7, amount = 3\<rparr>)
        \<and> getCollection d1 30 7 = Some \<lparr>userId = 30, songId = 7, amount = 3\<rparr>)
   \<and> (\<exists>d1. createCollection Some example_db \<lparr>userId = 10, songId = 7, amount = 3\<rparr>
            = Inr (d1, \<lparr>userId = 10, songId = 7, amount = 5\<rparr>)
        \<and> getCollection d1 10 7 = Some \<lparr>userId = 10, songId = 7, amount = 5\<rparr>)
   \<and> (case createCollection Some example_db \<lparr>userId = 10, songId = 7, amount = 3\<rparr> of
         Inl e \<Rightarrow> Inl e
       | Inr (d1, r1) \<Rightarrow> createCollection Some d1 \<lparr>userId = 10, songId = 7, amount = 4\<rparr>)
      = createCollection Some example_db \<lparr>userId = 10, songId = 7, amount = 7\<rparr>"
  using createCollection_accumulates
    [of example_db 30 7 "\<lparr>fid = 30, notificationDetails = None\<rparr>" Some _ 3 _ 4]
    createCollection_accumulates
    [of example_db 10 7 _ Some _ 3 "\<lparr>userId = 10, songId = 7, amount = 2\<rparr>" 4]
  by (simp add: example_db_lookups example_db_songs)

text \<open>
  Claim C10. On the first-mint path (no row for the user and the song) the upsert throws
  when the user is not in the store, and throws when the user is but the song is not; an
  exception leaves the store as it was. On the repeat path (the row is there) it
  updates the amount whatever the user and song tables hold: emptied tables give the same
  update.
\<close>

theorem createCollection_existence_checks:
  "(getCollection d u s = None \<and> getUser d u = None \<longrightarrow>
      createCollection jp d \<lparr>userId = u, songId = s, amount = a\<rparr> = Inl (UserDoesNotExist u))
   \<and> (getCollection d u s = None \<and> getUser d u = Some usr \<and> getSong jp d s = Inr None \<longrightarrow>
      createCollection jp d \<lparr>userId = u, songId = s, amount = a\<rparr> = Inl (SongDoesNotExist s))
   \<and> (getCollection d u s = Some res \<longrightarrow>
      createCollection jp (d\<lparr>users := [], songs := []\<rparr>) \<lparr>userId = u, songId = s, amount = a\<rparr>
        = Inr (d\<lparr>users := [], songs := [],
                 collections :=
                   map (\<lambda>r. if userId r = u \<and> songId r = s then r\<lparr>amount := amount res + a\<rparr> else r)
                     (collections d)\<rparr>,
               res\<lparr>amount := amount res + a\<rparr>)
      \<and> getUser (d\<lparr>users := [], songs := []\<rparr>) u = None
      \<and> getSong jp (d\<lparr>users := [], songs := []\<rparr>) s = Inr None)"
proof (intro conjI impI)
  assume "getCollection d u s = None \<and> getUser d u = None"
  then show "createCollection jp d \<lparr>userId = u, songId = s, amount = a\<rparr> = Inl (UserDoesNotExist u)"
    by (simp add: createCollection_no_user)
next
  assume "getCollection d u s = None \<and> getUser d u = Some usr \<and> getSong jp d s = Inr None"
  then show "createCollection jp d \<lparr>userId = u, songId = s, amount = a\<rparr> = Inl (SongDoesNotExist s)"
    by (simp add: createCollection_no_song)
next
  assume r: "getCollection d u s = Some res"
  then have r': "getCollection (d\<lparr>users := [], songs := []\<rparr>) u s = Some res"
    by (simp add: getCollection_def prisma_collection_findUnique_def)
  show "createCollection jp (d\<lparr>users := [], songs := []\<rparr>) \<lparr>userId = u, songId = s, amount = a\<rparr>
        = Inr (d\<lparr>users := [], songs := [],
                 collections :=
                   map (\<lambda>r. if userId r = u \<and> songId r = s then r\<lparr>amount := amount res + a\<rparr> else r)
                     (collections d)\<rparr>,
               res\<lparr>amount := amount res + a\<rparr>)"
    by (simp add: createCollection_repeat [OF r'])
next
  show "getUser (d\<lparr>users := [], songs := []\<rparr>) u = None"
    by (simp add: getUser_def prisma_user_findUnique_def)
next
  show "getSong jp (d\<lparr>users := [], songs := []\<rparr>) s = Inr None"
    by (simp add: getSong_def prisma_song_findUnique_def)
qed

text \<open>
  In the example store: user 40 is unknown, song 9 is unknown, and user 10's row for
  song 7 is updated from 2 to 5 with both tables emptied.
\<close>

theorem createCollection_existence_checks_witness:
  "createCollection Some example_db \<lparr>userId = 40, songId = 7, amount = 1\<rparr> = Inl (UserDoesNotExist 40)
   \<and> createCollection Some example_db \<lparr>userId = 30, songId = 9, amount = 1\<rparr> = Inl (SongDoesNotExist 9)
   \<and> createCollection Some (example_db\<lparr>users := [], songs := []\<rparr>) \<lparr>userId = 10, songId = 7, amount = 3\<rparr>
       = Inr (example_db\<lparr>users := [], songs := [],
                collections := [\<lparr>userId = 10, songId = 7, amount = 5\<rparr>,
                                \<lparr>userId = 20, songId = 7, amount = 5\<rparr>,
                                \<lparr>userId = 30, songId = 8, amount = 9\<rparr>]\<rparr>,
              \<lparr>userId = 10, songId = 7, amount = 5\<rparr>)"
proof -
  have c: "map (\<lambda>r. if userId r = 10 \<and> songId r = 7 then r\<lparr>amount := amount \<lparr>userId = 10, songId = 7, amount = 2\<rparr> + 3\<rparr> else r)
             (collections example_db)
           = [\<lparr>userId = 10, songId = 7, amount = 5\<rparr>, \<lparr>userId = 20, songId = 7, amount = 5\<rparr>,
              \<lparr>userId = 30, songId = 8, amount = 9\<rparr>]"
    by (simp add: example_db_def)
  show ?thesis
    using createCollection_existence_checks [of example_db 40 7 Some 1 _ _]
      createCollection_existence_checks
        [of example_db 30 9 Some 1 "\<lparr>fid = 30, notificationDetails = None\<rparr>" _]
      createCollection_existence_checks
        [of example_db 10 7 Some 3 _ "\<lparr>userId = 10, songId = 7, amount = 2\<rparr>"]
    by (simp add: example_db_lookups example_db_songs c)
qed

section \<open>The leaderboard position\<close>

lemma findIndex_ge: "- 1 \<le> findIndex P xs"
  by (induction xs) (auto simp: Let_def)

lemma findIndex_none: "findIndex P xs = - 1 \<longleftrightarrow> (\<forall>x \<in> set xs. \<not> P x)"
proof (induction xs)
  case Nil
  then show ?case by simp
next
  case (Cons x xs)
  have "- 1 \<le> findIndex P xs" by (rule findIndex_ge)
  then show ?case using Cons by (auto simp: Let_def)
qed

lemma findIndex_found:
  "findIndex P xs \<noteq> - 1 \<Longrightarrow>
     0 \<le> findIndex P xs \<and> nat (findIndex P xs) < length xs \<and> P (xs ! nat (findIndex P xs)) \<and>
     (\<forall>i < nat (findIndex P xs). \<not> P (xs ! i))"
proof (induction xs)
  case Nil
  then show ?case by simp
next
  case (Cons x xs)
  show ?case
  proof (cases "P x")
    case True
    then show ?thesis by simp
  next
    case False
    with Cons.prems have ne: "findIndex P xs \<noteq> - 1" by (auto simp: Let_def)
    from Cons.IH [OF ne] have ih: "0 \<le> findIndex P xs" "nat (findIndex P xs) < length xs"
      "P (xs ! nat (findIndex P xs))" "\<forall>i < nat (findIndex P xs). \<not> P (xs ! i)" by auto
    have eq: "findIndex P (x # xs) = findIndex P xs + 1" using False ne by (simp add: Let_def)
    have n: "nat (findIndex P xs + 1) = Suc (nat (findIndex P xs))" using ih(1) by simp
    show ?thesis unfolding eq n using ih False
      by (auto simp: nth_Cons split: nat.splits)
  qed
qed

lemma sort_key_amount_desc:
  "sorted_wrt (\<lambda>a b. amount b \<le> amount a) (sort_key (\<lambda>c. - amount c) xs)"
proof -
  have "sorted (map (\<lambda>c. - amount c) (sort_key (\<lambda>c. - amount c) xs))" by (rule sorted_sort_key)
  then show ?thesis by (simp add: sorted_map sorted_wrt_iff_nth_less)
qed

lemma findMany_desc_sorted:
  "sorted_wrt (\<lambda>a b. amount (fst b) \<le> amount (fst a)) (prisma_collection_findMany_desc d s)"
  using sort_key_amount_desc [of "filter (\<lambda>c. songId c = s) (collections d)"]
  by (simp add: prisma_collection_findMany_desc_def sorted_wrt_map include_user_def)

lemma findMany_desc_rows:
  "mset (map fst (prisma_collection_findMany_desc d s)) = mset (filter (\<lambda>c. songId c = s) (collections d))"
  by (simp add: prisma_collection_findMany_desc_def include_user_def comp_def)

lemma findMany_desc_set:
  "set (prisma_collection_findMany_desc d s) = include_user d ` {c \<in> set (collections d). songId c = s}"
  by (auto simp: prisma_collection_findMany_desc_def)

text \<open>
  Claim C8. The query returns the song's rows, each with its user, ordered by amount
  descending. The position is null exactly when no row of the song belongs to the user.
  Otherwise it is the 1-based index of the user's first row in that order: it lies
  between 1 and the number of collectors, the returned collection is the row at that
  place, no earlier row is the user's, and every earlier row has at least that amount. A
  user whose row has a larger amount than every other row of the song has position 1.
\<close>

theorem getUserCollectionWithPosition_rank:
  "sorted_wrt (\<lambda>a b. amount (fst b) \<le> amount (fst a)) (prisma_collection_findMany_desc d sId)
   \<and> mset (map fst (prisma_collection_findMany_desc d sId)) =
       mset (filter (\<lambda>c. songId c = sId) (collections d))
   \<and> (position (getUserCollectionWithPosition d sId f) = None \<longleftrightarrow>
        \<not> (\<exists>c \<in> set (prisma_collection_findMany_desc d sId). user_has_fid f c))
   \<and> (\<forall>p. position (getUserCollectionWithPosition d sId f) = Some p \<longrightarrow>
          1 \<le> p \<and> p \<le> int (length (prisma_collection_findMany_desc d sId))
        \<and> collection (getUserCollectionWithPosition d sId f) =
            Some (prisma_collection_findMany_desc d sId ! nat (p - 1))
        \<and> user_has_fid f (prisma_collection_findMany_desc d sId ! nat (p - 1))
        \<and> (\<forall>i < nat (p - 1).
              \<not> user_has_fid f (prisma_collection_findMany_desc d sId ! i)
            \<and> amount (fst (prisma_collection_findMany_desc d sId ! nat (p - 1)))
                \<le> amount (fst (prisma_collection_findMany_desc d sId ! i))))
   \<and> (\<forall>row. row \<in> set (collections d) \<and> songId row = sId \<and> user_has_fid f (include_user d row)
          \<and> (\<forall>r' \<in> set (collections d). songId r' = sId \<and> r' \<noteq> row \<longrightarrow> amount r' < amount row)
        \<longrightarrow> position (getUserCollectionWithPosition d sId f) = Some 1)"
  (is "?A \<and> ?B \<and> ?C \<and> ?D \<and> ?E")
proof -
  let ?cs = "prisma_collection_findMany_desc d sId"
  let ?k = "findIndex (user_has_fid f) ?cs"
  have A: ?A by (rule findMany_desc_sorted)
  have B: ?B by (rule findMany_desc_rows)
  have posdef: "position (getUserCollectionWithPosition d sId f)
                = (if ?k \<noteq> - 1 then Some (?k + 1) else None)"
    by (simp add: getUserCollectionWithPosition_def Let_def)
  have coldef: "collection (getUserCollectionWithPosition d sId f)
                = (if ?k \<noteq> - 1 then Some (?cs ! nat ?k) else None)"
    by (simp add: getUserCollectionWithPosition_def Let_def)
  have C: ?C unfolding posdef using findIndex_none [of "user_has_fid f" ?cs] by auto
  have D: ?D
  proof (intro allI impI)
    fix p assume "position (getUserCollectionWithPosition d sId f) = Some p"
    then have ne: "?k \<noteq> - 1" and p: "p = ?k + 1" unfolding posdef by (auto split: if_splits)
    from findIndex_found [OF ne] have f: "0 \<le> ?k" "nat ?k < length ?cs"
      "user_has_fid f (?cs ! nat ?k)" "\<forall>i < nat ?k. \<not> user_has_fid f (?cs ! i)" by auto
    have earlier: "\<forall>i < nat ?k. amount (fst (?cs ! nat ?k)) \<le> amount (fst (?cs ! i))"
      using A f(2) by (auto simp: sorted_wrt_iff_nth_less)
    show "1 \<le> p \<and> p \<le> int (length ?cs)
        \<and> collection (getUserCollectionWithPosition d sId f) = Some (?cs ! nat (p - 1))
        \<and> user_has_fid f (?cs ! nat (p - 1))
        \<and> (\<forall>i < nat (p - 1). \<not> user_has_fid f (?cs ! i)
            \<and> amount (fst (?cs ! nat (p - 1))) \<le> amount (fst (?cs ! i)))"
      using f earlier ne unfolding p coldef by auto
  qed
  have E: ?E
  proof (intro allI impI)
    fix row
    assume h: "row \<in> set (collections d) \<and> songId row = sId \<and> user_has_fid f (include_user d row)
          \<and> (\<forall>r' \<in> set (collections d). songId r' = sId \<and> r' \<noteq> row \<longrightarrow> amount r' < amount row)"
    then have mem: "include_user d row \<in> set ?cs" by (auto simp: findMany_desc_set)
    then obtain x xs where cs: "?cs = x # xs" by (cases ?cs) auto
    have "x \<in> set ?cs" using cs by simp
    then obtain rx where rx: "x = include_user d rx" "rx \<in> set (collections d)" "songId rx = sId"
      by (auto simp: findMany_desc_set)
    have "amount (fst (include_user d row)) \<le> amount (fst x)"
      using A mem unfolding cs by auto
    then have "amount row \<le> amount rx" using rx(1) by (simp add: include_user_def)
    with h rx have "rx = row" by force
    then have "user_has_fid f x" using h rx(1) by simp
    then have "?k = 0" unfolding cs by simp
    then show "position (getUserCollectionWithPosition d sId f) = Some 1"
      unfolding posdef by simp
  qed
  from A B C D E show ?thesis by blast
qed

lemma example_db_collectors:
  "prisma_collection_findMany_desc example_db 7 =
     [(\<lparr>userId = 20, songId = 7, amount = 5\<rparr>, Some \<lparr>fid = 20, notificationDetails = None\<rparr>),
      (\<lparr>userId = 10, songId = 7, amount = 2\<rparr>, Some \<lparr>fid = 10, notificationDetails = None\<rparr>)]"
  by (simp add: example_db_def prisma_collection_findMany_desc_def include_user_def
      prisma_user_findUnique_def)

text \<open>
  In the example store song 7 has two collectors: user 20 with 5 is first, user 10 with 2
  is second, and user 30, who collected another song, has no position.
\<close>

theorem getUserCollectionWithPosition_rank_witness:
  "position (getUserCollectionWithPosition example_db 7 10) = Some 2
   \<and> position (getUserCollectionWithPosition example_db 7 20) = Some 1
   \<and> position (getUserCollectionWithPosition example_db 7 30) = None
   \<and> collection (getUserCollectionWithPosition example_db 7 10) =
        Some (\<lparr>userId = 10, songId = 7, amount = 2\<rparr>, Some \<lparr>fid = 10, notificationDetails = None\<rparr>)"
proof -
  let ?top = "\<lparr>userId = 20, songId = 7, amount = 5\<rparr>"
  have p: "position (getUserCollectionWithPosition example_db 7 10) = Some 2"
    by (simp add: getUserCollectionWithPosition_def example_db_collectors user_has_fid_def Let_def)
  have n: "\<not> (\<exists>c \<in> set (prisma_collection_findMany_desc example_db 7). user_has_fid 30 c)"
    by (simp add: example_db_collectors user_has_fid_def)
  have top: "?top \<in> set (collections example_db) \<and> songId ?top = 7 \<and>
     user_has_fid 20 (include_user example_db ?top) \<and>
     (\<forall>r' \<in> set (collections example_db). songId r' = 7 \<and> r' \<noteq> ?top \<longrightarrow> amount r' < amount ?top)"
    by (simp add: example_db_def include_user_def user_has_fid_def prisma_user_findUnique_def)
  from getUserCollectionWithPosition_rank [of example_db 7 10] p
  have c: "collection (getUserCollectionWithPosition example_db 7 10)
           = Some (prisma_collection_findMany_desc example_db 7 ! nat (2 - 1))"
    by blast
  from getUserCollectionWithPosition_rank [of example_db 7 30] n
  have q: "position (getUserCollectionWithPosition example_db 7 30) = None" by blast
  from getUserCollectionWithPosition_rank [of example_db 7 20] top
  have t: "position (getUserCollectionWithPosition example_db 7 20) = Some 1" by blast
  show ?thesis using p q t c by (simp add: example_db_collectors)
qed

section \<open>Minor-unit amounts\<close>

lemma BigInt_ceil: "BigInt m (Math_ceil (Some a)) = Inr \<lceil>a\<rceil>"
  by (simp add: BigInt_def Math_ceil_def)

lemma BigInt_ceil_None: "BigInt m (Math_ceil None) = Inl (Err m)"
  by (simp add: BigInt_def Math_ceil_def)

text \<open>
  Where the conversion goes through \<open>Math.ceil\<close> it never throws on a finite amount, the
  integer is at least the amount, and it exceeds the truncated amount whenever the amount
  has a fractional part.
\<close>

lemma ceil_rounds_up:
  assumes "BigInt m (Math_ceil (Some a)) = Inr r"
  shows "a \<le> of_int r \<and> (of_int \<lfloor>a\<rfloor> \<noteq> a \<longrightarrow> \<lfloor>a\<rfloor> < r)"
proof -
  from assms have r: "r = \<lceil>a\<rceil>" by (simp add: BigInt_ceil)
  have 1: "a \<le> of_int \<lceil>a\<rceil>" by (rule le_of_int_ceiling)
  have 2: "\<lfloor>a\<rfloor> < \<lceil>a\<rceil>" if "of_int \<lfloor>a\<rfloor> \<noteq> a"
    using that by (simp add: ceiling_altdef)
  show ?thesis unfolding r using 1 2 by blast
qed

lemma mintValue_rounds_up:
  assumes "paymentMethod p = ETH" "ethAmount p amt = Some a"
  shows "mintValue p amt = Inr \<lceil>a\<rceil>"
  using assms by (simp add: mintValue_def BigInt_ceil)

lemma required_round_up:
  assumes "usdcAmount p = Some a"
  shows "requiredUsdc p = Inr \<lceil>a\<rceil>" "requiredAllowance p = Inr \<lceil>a\<rceil>"
  using assms by (simp_all add: requiredUsdc_def requiredAllowance_def BigInt_ceil)

lemma requiredEth_rounds_up:
  assumes "ethAmount p (mintQuantity p) = Some a"
  shows "requiredEth p = Inr \<lceil>a\<rceil>"
  using assms by (simp add: requiredEth_def BigInt_ceil)

text \<open>The approval amount is converted as it is: a fractional amount is a RangeError.\<close>

lemma approveAmount_fractional:
  assumes "usdcAmount p = Some a" "of_int \<lfloor>a\<rfloor> \<noteq> a"
  shows "approveAmount p = Inl (Err (rangeErrorText p))"
  using assms by (simp add: approveAmount_def BigInt_def)

lemma approveAmount_integer:
  assumes "usdcAmount p = Some (of_int n)"
  shows "approveAmount p = Inr n"
  using assms by (simp add: approveAmount_def BigInt_def)

lemmas world_ops =
  act_def setMintState_def setPostMintExecuted_def setIsSendCallsPending_def
  setSendCallsId_def toast_def setTimeout_def

lemma sendCallsCatch_unsupported:
  "str_includes m sendCallsUnsupported \<Longrightarrow>
   sendCallsCatch p (Err m) w = handleApproveOnly p (setIsSendCallsPending False w)"
  by (simp add: sendCallsCatch_def Let_def)

lemma sendCallsCatch_other:
  "\<not> str_includes m sendCallsUnsupported \<Longrightarrow>
   sendCallsCatch p (Err m) w =
     (if str_includes m userRejected then setIsSendCallsPending False w
      else toast m (setIsSendCallsPending False w))"
  by (simp add: sendCallsCatch_def Let_def)

text \<open>Products of the examples; every one of them is exact in binary64.\<close>

lemma example_usdcAmount:
  "usdcAmount example_props = Some 8000000"
  "usdcAmount (example_props\<lparr>usdPrice := 1 / 128, mintQuantity := 1\<rparr>) = Some (15625 / 2)"
  "usdcAmount (example_props\<lparr>mintQuantity := 5\<rparr>) = Some 20000000"
  by code_simp+

lemma example_total: "num_mul (Some 4) (Some 2) = Some 8"
  by code_simp

lemma example_approveAmount: "approveAmount example_props = Inr 8000000"
  using approveAmount_integer [of example_props 8000000] by (simp add: example_usdcAmount)

lemma example_props_fields:
  "userAddress example_props = Some ''0xabc''"
  "tokenId example_props = 7"
  "mintQuantity example_props = 2"
  "paymentMethod example_props = USDC"
  "rangeErrorText example_props = ''not an integer''"
  "userFid example_props = Some 10"
  "isOpen example_props"
  "songName example_props = ''Song''"
  "usdPrice example_props = 4"
  by (simp_all add: example_props_def)

lemma not_an_integer_includes:
  "\<not> str_includes ''not an integer'' sendCallsUnsupported"
  "\<not> str_includes ''not an integer'' userRejected"
  by (simp_all add: sendCallsUnsupported_def userRejected_def str_includes.simps)

text \<open>
  Claim C1, at a unit price of 1/128 USD and quantity 1, where the stablecoin amount is
  7812.5 minor units (the binary64 products are exact). The affordability thresholds round up
  to 7813. The approval amount is not rounded: its conversion throws, \<open>handleApproveOnly\<close>
  submits nothing, and the bundled handler shows the RangeError and submits nothing.
\<close>

theorem approve_amount_not_rounded_up:
  "approveAmount (example_props\<lparr>usdPrice := 1 / 128, mintQuantity := 1\<rparr>) = Inl (Err ''not an integer'')
   \<and> requiredAllowance (example_props\<lparr>usdPrice := 1 / 128, mintQuantity := 1\<rparr>) = Inr 7813
   \<and> requiredUsdc (example_props\<lparr>usdPrice := 1 / 128, mintQuantity := 1\<rparr>) = Inr 7813
   \<and> trace (handleApproveOnly (example_props\<lparr>usdPrice := 1 / 128, mintQuantity := 1\<rparr>) example_world) = []
   \<and> trace (handleApproveAndMintWithSendCalls (example_props\<lparr>usdPrice := 1 / 128, mintQuantity := 1\<rparr>)
              (Inr ''batch'') example_world)
       = [SetPostMintExecuted False, SetIsSendCallsPending True, SetIsSendCallsPending False,
          Toast ''not an integer'']"
proof -
  let ?p = "example_props\<lparr>usdPrice := 1 / 128, mintQuantity := 1\<rparr>"
  have fl: "\<lfloor>15625 / 2 :: rat\<rfloor> = 7812" by (simp add: floor_eq_iff)
  have ce: "\<lceil>15625 / 2 :: rat\<rceil> = 7813" by (simp add: ceiling_eq_iff)
  have t: "rangeErrorText ?p = ''not an integer''" by (simp add: example_props_def)
  have a: "approveAmount ?p = Inl (Err ''not an integer'')"
    using approveAmount_fractional [of ?p "15625 / 2"] by (simp add: example_usdcAmount fl t)
  have r: "requiredAllowance ?p = Inr 7813" "requiredUsdc ?p = Inr 7813"
    using required_round_up [of ?p "15625 / 2"] by (simp_all add: example_usdcAmount ce)
  have ad: "userAddress ?p = Some ''0xabc''" by (simp add: example_props_def)
  have h1: "trace (handleApproveOnly ?p example_world) = []"
    by (simp add: handleApproveOnly_def ad a example_world_def)
  have h2: "trace (handleApproveAndMintWithSendCalls ?p (Inr ''batch'') example_world)
       = [SetPostMintExecuted False, SetIsSendCallsPending True, SetIsSendCallsPending False,
          Toast ''not an integer'']"
    by (simp add: handleApproveAndMintWithSendCalls_def ad a
        sendCallsCatch_other [OF not_an_integer_includes(1)] not_an_integer_includes(2)
        Let_def world_ops example_world_def)
  from a r h1 h2 show ?thesis by simp
qed

section \<open>Submission errors and the fallback\<close>

text \<open>What the bundled handler does up to the call of \<open>sendCalls\<close>.\<close>

lemma handleApproveAndMintWithSendCalls_throws:
  assumes "userAddress p = Some addr" "approveAmount p = Inr a"
  shows "handleApproveAndMintWithSendCalls p (Inl e) w =
           sendCallsCatch p e
             (act (SendCalls [Approve a, Mint addr (tokenId p) (mintQuantity p) False])
                (setIsSendCallsPending True (setPostMintExecuted False w)))"
  using assms by (simp add: handleApproveAndMintWithSendCalls_def Let_def)

lemma handleApproveAndMintWithSendCalls_returns:
  assumes "userAddress p = Some addr" "approveAmount p = Inr a"
  shows "handleApproveAndMintWithSendCalls p (Inr i) w =
           setTimeout (CheckCallsStatus i p (postMintExecuted w)) 2000
             (setSendCallsId i
                (act (SendCalls [Approve a, Mint addr (tokenId p) (mintQuantity p) False])
                   (setIsSendCallsPending True (setPostMintExecuted False w))))"
  using assms by (simp add: handleApproveAndMintWithSendCalls_def Let_def)

lemma handleApproveOnly_submits:
  assumes "userAddress p = Some addr" "approveAmount p = Inr a"
  shows "handleApproveOnly p w = act (WriteContractAllowance (Approve a)) w"
  using assms by (simp add: handleApproveOnly_def)

lemma handleMint_submits:
  assumes "userAddress p = Some addr" "mintValue p amt = Inr v"
  shows "handleMint p amt isWETH w =
           act (WriteContractMint (Mint addr (tokenId p) amt isWETH) v) (setPostMintExecuted False w)"
  using assms by (simp add: handleMint_def Let_def)

lemma sendCalls_unsupported_trace:
  assumes "userAddress p = Some addr" "approveAmount p = Inr a" "str_includes m sendCallsUnsupported"
  shows "trace (handleApproveAndMintWithSendCalls p (Inl (Err m)) w) =
           trace w @ [SetPostMintExecuted False, SetIsSendCallsPending True,
                      SendCalls [Approve a, Mint addr (tokenId p) (mintQuantity p) False],
                      SetIsSendCallsPending False, WriteContractAllowance (Approve a)]"
    and "isSendCallsPending (handleApproveAndMintWithSendCalls p (Inl (Err m)) w) = False"
    and "mintState (handleApproveAndMintWithSendCalls p (Inl (Err m)) w) = mintState w"
    and "timers (handleApproveAndMintWithSendCalls p (Inl (Err m)) w) = timers w"
  by (simp_all add: handleApproveAndMintWithSendCalls_throws [OF assms(1,2)]
      sendCallsCatch_unsupported [OF assms(3)] handleApproveOnly_submits [OF _ assms(2)]
      assms(1) world_ops)

lemma allowanceSuccessEffect_mints:
  assumes "allowanceTxResult p = ReceiptSuccess" "userAddress p = Some addr"
    "mintValue p (mintQuantity p) = Inr v"
  shows "trace (allowanceSuccessEffect p w) =
           trace w @ [RefetchAllowance, SetPostMintExecuted False,
                      WriteContractMint (Mint addr (tokenId p) (mintQuantity p) False) v]"
  by (simp add: allowanceSuccessEffect_def assms(1) handleMint_submits [OF assms(2,3)] world_ops)

text \<open>
  Claim C3. When \<open>sendCalls\<close> throws an error whose message says that the wallet does not
  support the method, the handler clears the in-flight flag and submits the single approval
  transaction for the same amount; it shows no notice, starts no poll and leaves the state.
  When the approval's receipt then reports success, the effect refreshes the allowance and
  submits the mint for the current quantity.
\<close>

theorem sendCalls_unsupported_falls_back:
  "userAddress p = Some addr \<and> approveAmount p = Inr a \<and> str_includes m sendCallsUnsupported \<longrightarrow>
     trace (handleApproveAndMintWithSendCalls p (Inl (Err m)) w) =
       trace w @ [SetPostMintExecuted False, SetIsSendCallsPending True,
                  SendCalls [Approve a, Mint addr (tokenId p) (mintQuantity p) False],
                  SetIsSendCallsPending False, WriteContractAllowance (Approve a)]
     \<and> isSendCallsPending (handleApproveAndMintWithSendCalls p (Inl (Err m)) w) = False
     \<and> mintState (handleApproveAndMintWithSendCalls p (Inl (Err m)) w) = mintState w
     \<and> timers (handleApproveAndMintWithSendCalls p (Inl (Err m)) w) = timers w
     \<and> (\<forall>p' w' v. allowanceTxResult p' = ReceiptSuccess \<and> userAddress p' = Some addr
            \<and> mintValue p' (mintQuantity p') = Inr v \<longrightarrow>
          trace (allowanceSuccessEffect p' w') =
            trace w' @ [RefetchAllowance, SetPostMintExecuted False,
                        WriteContractMint (Mint addr (tokenId p') (mintQuantity p') False) v])"
proof (intro impI)
  assume h: "userAddress p = Some addr \<and> approveAmount p = Inr a \<and> str_includes m sendCallsUnsupported"
  then have ad: "userAddress p = Some addr" and am: "approveAmount p = Inr a"
    and un: "str_includes m sendCallsUnsupported" by simp_all
  have later: "\<forall>p' w' v. allowanceTxResult p' = ReceiptSuccess \<and> userAddress p' = Some addr
            \<and> mintValue p' (mintQuantity p') = Inr v \<longrightarrow>
          trace (allowanceSuccessEffect p' w') =
            trace w' @ [RefetchAllowance, SetPostMintExecuted False,
                        WriteContractMint (Mint addr (tokenId p') (mintQuantity p') False) v]"
    by (auto simp: allowanceSuccessEffect_mints)
  show "trace (handleApproveAndMintWithSendCalls p (Inl (Err m)) w) =
       trace w @ [SetPostMintExecuted False, SetIsSendCallsPending True,
                  SendCalls [Approve a, Mint addr (tokenId p) (mintQuantity p) False],
                  SetIsSendCallsPending False, WriteContractAllowance (Approve a)]
     \<and> isSendCallsPending (handleApproveAndMintWithSendCalls p (Inl (Err m)) w) = False
     \<and> mintState (handleApproveAndMintWithSendCalls p (Inl (Err m)) w) = mintState w
     \<and> timers (handleApproveAndMintWithSendCalls p (Inl (Err m)) w) = timers w
     \<and> (\<forall>p' w' v. allowanceTxResult p' = ReceiptSuccess \<and> userAddress p' = Some addr
            \<and> mintValue p' (mintQuantity p') = Inr v \<longrightarrow>
          trace (allowanceSuccessEffect p' w') =
            trace w' @ [RefetchAllowance, SetPostMintExecuted False,
                        WriteContractMint (Mint addr (tokenId p') (mintQuantity p') False) v])"
    using sendCalls_unsupported_trace [OF ad am un] later by blast
qed

lemma unsupported_includes:
  "str_includes sendCallsUnsupported sendCallsUnsupported"
  "\<not> str_includes sendCallsUnsupported userRejected"
  by (simp_all add: sendCallsUnsupported_def userRejected_def str_includes.simps)


text \<open>
  The buyer of the example (quantity 2 at 4 USD, so 8000000 minor units) on a wallet
  without the bundled call: the approval for 8000000 goes out, and once it is confirmed
  the mint of 2 follows, with no value since the payment is in the stablecoin.
\<close>

theorem sendCalls_unsupported_falls_back_witness:
  "trace (handleApproveAndMintWithSendCalls example_props (Inl (Err sendCallsUnsupported)) example_world) =
     [SetPostMintExecuted False, SetIsSendCallsPending True,
      SendCalls [Approve 8000000, Mint ''0xabc'' 7 2 False],
      SetIsSendCallsPending False, WriteContractAllowance (Approve 8000000)]
   \<and> trace (allowanceSuccessEffect (example_props\<lparr>allowanceTxResult := ReceiptSuccess\<rparr>) example_world) =
     [RefetchAllowance, SetPostMintExecuted False, WriteContractMint (Mint ''0xabc'' 7 2 False) 0]"
proof -
  let ?p' = "example_props\<lparr>allowanceTxResult := ReceiptSuccess\<rparr>"
  have h: "userAddress example_props = Some ''0xabc'' \<and> approveAmount example_props = Inr 8000000
           \<and> str_includes sendCallsUnsupported sendCallsUnsupported"
    by (simp add: example_props_fields example_approveAmount unsupported_includes)
  have h': "allowanceTxResult ?p' = ReceiptSuccess \<and> userAddress ?p' = Some ''0xabc''
            \<and> mintValue ?p' (mintQuantity ?p') = Inr 0"
    by (simp add: example_props_def mintValue_def)
  have f: "tokenId ?p' = 7" "mintQuantity ?p' = 2" by (simp_all add: example_props_def)
  from sendCalls_unsupported_falls_back
    [of example_props "''0xabc''" 8000000 sendCallsUnsupported example_world] h h'
  have "trace (handleApproveAndMintWithSendCalls example_props (Inl (Err sendCallsUnsupported)) example_world) =
       trace example_world @ [SetPostMintExecuted False, SetIsSendCallsPending True,
                  SendCalls [Approve 8000000, Mint ''0xabc'' (tokenId example_props) (mintQuantity example_props) False],
                  SetIsSendCallsPending False, WriteContractAllowance (Approve 8000000)]"
    and "trace (allowanceSuccessEffect ?p' example_world) =
            trace example_world @ [RefetchAllowance, SetPostMintExecuted False,
                        WriteContractMint (Mint ''0xabc'' (tokenId ?p') (mintQuantity ?p') False) 0]"
    by blast+
  then show ?thesis by (simp add: example_props_fields f example_world_def)
qed




section \<open>Insufficient balance\<close>

text \<open>
  The native-currency total of 5 editions at 4 USD with the currency at 2000 USD, step by
  step as the code computes it in binary64: \<open>4 / 2000\<close>, times \<open>0.01\<close>, the sum, times 5,
  times \<open>10 ** 18\<close>. The exact total with the markup would be 10100000000000000.
\<close>

lemma example_price: "num_div 4 2000 = Some (1152921504606847 / 576460752303423488)"
  by code_simp

lemma example_markup:
  "num_mul (Some (1152921504606847 / 576460752303423488)) (round64 (1 / 100))
     = Some (5902958103587057 / 295147905179352825856)"
  by code_simp

lemma example_safePrice:
  "num_add (Some (1152921504606847 / 576460752303423488))
     (Some (5902958103587057 / 295147905179352825856))
     = Some (2328901439305831 / 1152921504606846976)"
  by code_simp

lemma example_wei:
  "num_mul (num_mul (Some (2328901439305831 / 1152921504606846976)) (Some 5))
     (Some 1000000000000000000) = Some 10100000000000002"
  by code_simp

lemma example_ethAmount:
  assumes "usdPrice p = 4" "ethUsd p = 2000"
  shows "ethAmount p 5 = Some 10100000000000002"
  by (simp add: ethAmount_def safePrice_def price_def assms example_price example_markup
      example_safePrice example_wei)

text \<open>The same for 5 editions at 1 USD with the currency at 3000 USD.\<close>

lemma third_price: "num_div 1 3000 = Some (6148914691236517 / 18446744073709551616)"
  by code_simp

lemma third_markup:
  "num_mul (Some (6148914691236517 / 18446744073709551616)) (round64 (1 / 100))
     = Some (3935305402391371 / 1180591620717411303424)"
  by code_simp

lemma third_safePrice:
  "num_add (Some (6148914691236517 / 18446744073709551616))
     (Some (3935305402391371 / 1180591620717411303424))
     = Some (3105201919074441 / 9223372036854775808)"
  by code_simp

lemma third_wei:
  "num_mul (num_mul (Some (3105201919074441 / 9223372036854775808)) (Some 5))
     (Some 1000000000000000000) = Some 1683333333333333"
  by code_simp

lemma third_ethAmount:
  assumes "usdPrice p = 1" "ethUsd p = 3000"
  shows "ethAmount p 5 = Some 1683333333333333"
  by (simp add: ethAmount_def safePrice_def price_def assms third_price third_markup
      third_safePrice third_wei)

lemma hasEnoughEthBalance_below:
  assumes "balanceData p = Some bal" "requiredEth p = Inr q" "bal < q"
  shows "hasEnoughEthBalance p = Inr False"
  using assms by (simp add: hasEnoughEthBalance_def)

lemma hasEnoughUsdcBalance_below:
  assumes "usdcBalance p = Some bal" "requiredUsdc p = Inr q" "bal < q"
  shows "hasEnoughUsdcBalance p = Inr False"
  using assms by (simp add: hasEnoughUsdcBalance_def)

lemma ethButton_insufficient:
  assumes "hasEnoughEthBalance p = Inr False"
  shows "ethButton p w = Inr \<lparr>disabled = True, label = ''INSUFFICIENT ETH BALANCE''\<rparr>"
  using assms by (simp add: ethButton_def)

lemma usdcButton_insufficient:
  assumes "hasEnoughUsdcBalance p = Inr False"
  shows "usdcButton p w = Inr \<lparr>disabled = True, label = ''INSUFFICIENT USDC BALANCE''\<rparr>"
  using assms by (simp add: usdcButton_def)

lemma mintButton_insufficient_eth:
  assumes "paymentMethod p = ETH" "hasEnoughEthBalance p = Inr False"
  shows "mintButton p w =
           (if isOpen p \<and> mintState w = Initial
            then Inr (Some \<lparr>disabled = True, label = ''INSUFFICIENT ETH BALANCE''\<rparr>) else Inr None)"
  by (simp add: mintButton_def assms(1) ethButton_insufficient [OF assms(2)])

lemma mintButton_insufficient_usdc:
  assumes "paymentMethod p = USDC" "hasEnoughUsdcBalance p = Inr False"
  shows "mintButton p w =
           (if isOpen p \<and> mintState w = Initial
            then Inr (Some \<lparr>disabled = True, label = ''INSUFFICIENT USDC BALANCE''\<rparr>) else Inr None)"
  by (simp add: mintButton_def assms(1) usdcButton_insufficient [OF assms(2)])

text \<open>
  Claim C6, as stated, fails: the mint that follows a confirmed approval is submitted
  without a look at the balance. With 10 USDC and a quantity raised to 5 at 4 USD while
  the approval was pending, the stablecoin mint goes out; with the payment method
  switched to the native currency and a balance of zero, the mint goes out with its value
  (10100000000000002 minor units, as binary64 arithmetic gives it). And the total that
  the button compares with is the one of binary64 arithmetic: for 5 editions at 1 USD
  with the currency at 3000 USD the exact total with the markup is 1683333333333333 and
  a third, which rounds up to 1683333333333334, but the code computes 1683333333333333,
  and with that balance the button is enabled and the mint goes out.
\<close>

theorem mint_after_approval_ignores_balance:
  "hasEnoughUsdcBalance (example_props\<lparr>mintQuantity := 5, allowanceTxResult := ReceiptSuccess\<rparr>) = Inr False
   \<and> trace (allowanceSuccessEffect
              (example_props\<lparr>mintQuantity := 5, allowanceTxResult := ReceiptSuccess\<rparr>) example_world)
       = [RefetchAllowance, SetPostMintExecuted False, WriteContractMint (Mint ''0xabc'' 7 5 False) 0]
   \<and> hasEnoughEthBalance
        (example_props\<lparr>mintQuantity := 5, paymentMethod := ETH, allowanceTxResult := ReceiptSuccess\<rparr>)
       = Inr False
   \<and> trace (allowanceSuccessEffect
              (example_props\<lparr>mintQuantity := 5, paymentMethod := ETH, allowanceTxResult := ReceiptSuccess\<rparr>)
              example_world)
       = [RefetchAllowance, SetPostMintExecuted False,
          WriteContractMint (Mint ''0xabc'' 7 5 False) 10100000000000002]
   \<and> \<lceil>1 / 3000 * (101 / 100) * 5 * 10 ^ 18 :: rat\<rceil> = 1683333333333334
   \<and> requiredEth
        (example_props\<lparr>usdPrice := 1, ethUsd := 3000, mintQuantity := 5, paymentMethod := ETH,
                        balanceData := Some 1683333333333333\<rparr>) = Inr 1683333333333333
   \<and> mintButton
        (example_props\<lparr>usdPrice := 1, ethUsd := 3000, mintQuantity := 5, paymentMethod := ETH,
                        balanceData := Some 1683333333333333\<rparr>) example_world
       = Inr (Some \<lparr>disabled = False, label = ''MINT WITH ETH''\<rparr>)
   \<and> trace (pressMintButton
        (example_props\<lparr>usdPrice := 1, ethUsd := 3000, mintQuantity := 5, paymentMethod := ETH,
                        balanceData := Some 1683333333333333\<rparr>) (Inr ''batch'') example_world)
       = [SetPostMintExecuted False, WriteContractMint (Mint ''0xabc'' 7 5 False) 1683333333333333]"
proof -
  let ?t = "example_props\<lparr>usdPrice := 1, ethUsd := 3000, mintQuantity := 5, paymentMethod := ETH,
                          balanceData := Some 1683333333333333\<rparr>"
  have 5: "\<lceil>1 / 3000 * (101 / 100) * 5 * 10 ^ 18 :: rat\<rceil> = 1683333333333334"
    by (simp add: ceiling_eq_iff)
  have ta: "ethAmount ?t 5 = Some 1683333333333333"
    by (rule third_ethAmount) (simp_all add: example_props_def)
  then have 6: "requiredEth ?t = Inr 1683333333333333"
    using requiredEth_rounds_up [of ?t 1683333333333333] by (simp add: example_props_def)
  then have he: "hasEnoughEthBalance ?t = Inr True"
    by (simp add: hasEnoughEthBalance_def example_props_def)
  have 7: "mintButton ?t example_world = Inr (Some \<lparr>disabled = False, label = ''MINT WITH ETH''\<rparr>)"
    by (simp add: mintButton_def ethButton_def he) (simp add: example_props_def example_world_def)
  have vt: "mintValue ?t 5 = Inr 1683333333333333"
    using mintValue_rounds_up [OF _ ta] by (simp add: example_props_def)
  have "pressMintButton ?t (Inr ''batch'') example_world = handleMint ?t 5 False example_world"
    by (simp add: pressMintButton_def 7 onClickMint_def)
  then have 8: "trace (pressMintButton ?t (Inr ''batch'') example_world)
       = [SetPostMintExecuted False, WriteContractMint (Mint ''0xabc'' 7 5 False) 1683333333333333]"
    using handleMint_submits [OF _ vt, of "''0xabc''" False example_world]
    by (simp add: world_ops example_props_def example_world_def)
  let ?u = "example_props\<lparr>mintQuantity := 5, allowanceTxResult := ReceiptSuccess\<rparr>"
  let ?e = "example_props\<lparr>mintQuantity := 5, paymentMethod := ETH, allowanceTxResult := ReceiptSuccess\<rparr>"
  have "usdcAmount ?u = usdcAmount (example_props\<lparr>mintQuantity := 5\<rparr>)"
    by (simp add: usdcAmount_def)
  then have ru: "requiredUsdc ?u = Inr 20000000"
    using required_round_up(1) [of ?u 20000000] by (simp add: example_usdcAmount)
  have "ethAmount ?e 5 = Some 10100000000000002"
    by (rule example_ethAmount) (simp_all add: example_props_def)
  then have re: "requiredEth ?e = Inr 10100000000000002"
    using requiredEth_rounds_up [of ?e 10100000000000002] by (simp add: example_props_def)
  have 1: "hasEnoughUsdcBalance ?u = Inr False"
    by (rule hasEnoughUsdcBalance_below [of ?u 10000000, OF _ ru]) (simp_all add: example_props_def)
  have 3: "hasEnoughEthBalance ?e = Inr False"
    by (rule hasEnoughEthBalance_below [of ?e 0, OF _ re]) (simp_all add: example_props_def)
  have vu: "mintValue ?u (mintQuantity ?u) = Inr 0"
    by (simp add: mintValue_def example_props_def)
  have ve: "mintValue ?e (mintQuantity ?e) = Inr 10100000000000002"
    using re by (simp add: mintValue_def requiredEth_def example_props_def)
  have 2: "trace (allowanceSuccessEffect ?u example_world)
       = [RefetchAllowance, SetPostMintExecuted False, WriteContractMint (Mint ''0xabc'' 7 5 False) 0]"
    using allowanceSuccessEffect_mints [OF _ _ vu, of "''0xabc''" example_world]
    by (simp add: example_props_def example_world_def)
  have 4: "trace (allowanceSuccessEffect ?e example_world)
       = [RefetchAllowance, SetPostMintExecuted False,
          WriteContractMint (Mint ''0xabc'' 7 5 False) 10100000000000002]"
    using allowanceSuccessEffect_mints [OF _ _ ve, of "''0xabc''" example_world]
    by (simp add: example_props_def example_world_def)
  from 1 2 3 4 5 6 7 8 show ?thesis by simp
qed

text \<open>
  Claim C6, amended. The native-currency total is computed from the price with the 1%
  markup, the stablecoin total from the price alone, both in binary64 and both rounded up
  to minor units. Whenever the balance of the selected currency is below that total, the
  mint button, where the modal shows it, is disabled and labelled as insufficient balance,
  and pressing it changes nothing: no transaction is submitted through the button.
\<close>

theorem insufficient_balance_disables_mint:
  "safePrice p = num_add (price p) (num_mul (price p) (round64 (1 / 100)))
   \<and> (ethAmount p (mintQuantity p) = Some x \<longrightarrow> requiredEth p = Inr \<lceil>x\<rceil>)
   \<and> (usdcAmount p = Some x \<longrightarrow> requiredUsdc p = Inr \<lceil>x\<rceil>)
   \<and> (balanceData p = Some bal \<and> requiredEth p = Inr q \<and> bal < q \<longrightarrow> hasEnoughEthBalance p = Inr False)
   \<and> (usdcBalance p = Some bal \<and> requiredUsdc p = Inr q \<and> bal < q \<longrightarrow> hasEnoughUsdcBalance p = Inr False)
   \<and> (paymentMethod p = ETH \<and> hasEnoughEthBalance p = Inr False \<longrightarrow>
        pressMintButton p r w = w
      \<and> (\<forall>b. mintButton p w = Inr (Some b) \<longrightarrow> disabled b \<and> label b = ''INSUFFICIENT ETH BALANCE''))
   \<and> (paymentMethod p = USDC \<and> hasEnoughUsdcBalance p = Inr False \<longrightarrow>
        pressMintButton p r w = w
      \<and> (\<forall>b. mintButton p w = Inr (Some b) \<longrightarrow> disabled b \<and> label b = ''INSUFFICIENT USDC BALANCE''))"
proof (intro conjI impI)
  show "safePrice p = num_add (price p) (num_mul (price p) (round64 (1 / 100)))"
    by (simp add: safePrice_def)
next
  assume "ethAmount p (mintQuantity p) = Some x"
  then show "requiredEth p = Inr \<lceil>x\<rceil>" by (rule requiredEth_rounds_up)
next
  assume "usdcAmount p = Some x"
  then show "requiredUsdc p = Inr \<lceil>x\<rceil>" by (rule required_round_up(1))
next
  assume "balanceData p = Some bal \<and> requiredEth p = Inr q \<and> bal < q"
  then show "hasEnoughEthBalance p = Inr False" by (simp add: hasEnoughEthBalance_below)
next
  assume "usdcBalance p = Some bal \<and> requiredUsdc p = Inr q \<and> bal < q"
  then show "hasEnoughUsdcBalance p = Inr False" by (simp add: hasEnoughUsdcBalance_below)
next
  assume h: "paymentMethod p = ETH \<and> hasEnoughEthBalance p = Inr False"
  then have b: "mintButton p w =
           (if isOpen p \<and> mintState w = Initial
            then Inr (Some \<lparr>disabled = True, label = ''INSUFFICIENT ETH BALANCE''\<rparr>) else Inr None)"
    by (simp add: mintButton_insufficient_eth)
  show "pressMintButton p r w = w" by (simp add: pressMintButton_def b)
  show "\<forall>b. mintButton p w = Inr (Some b) \<longrightarrow> disabled b \<and> label b = ''INSUFFICIENT ETH BALANCE''"
    by (auto simp: b split: if_splits)
next
  assume h: "paymentMethod p = USDC \<and> hasEnoughUsdcBalance p = Inr False"
  then have b: "mintButton p w =
           (if isOpen p \<and> mintState w = Initial
            then Inr (Some \<lparr>disabled = True, label = ''INSUFFICIENT USDC BALANCE''\<rparr>) else Inr None)"
    by (simp add: mintButton_insufficient_usdc)
  show "pressMintButton p r w = w" by (simp add: pressMintButton_def b)
  show "\<forall>b. mintButton p w = Inr (Some b) \<longrightarrow> disabled b \<and> label b = ''INSUFFICIENT USDC BALANCE''"
    by (auto simp: b split: if_splits)
qed

text \<open>
  The spec's scenario: quantity 5 at 4 USD with the native currency at 2000 USD. The code
  computes a total of 10100000000000002 minor units; with a balance of 10000000000000000
  (the total without the markup) the button is disabled, labelled, and pressing it does
  nothing. In the stablecoin the same purchase needs 20000000 minor units, and with the
  10000000 of the example the button is disabled and labelled as well.
\<close>

theorem insufficient_balance_disables_mint_witness:
  "requiredEth (example_props\<lparr>mintQuantity := 5, paymentMethod := ETH, balanceData := Some 10000000000000000\<rparr>)
     = Inr 10100000000000002
   \<and> mintButton (example_props\<lparr>mintQuantity := 5, paymentMethod := ETH, balanceData := Some 10000000000000000\<rparr>)
       example_world
     = Inr (Some \<lparr>disabled = True, label = ''INSUFFICIENT ETH BALANCE''\<rparr>)
   \<and> pressMintButton (example_props\<lparr>mintQuantity := 5, paymentMethod := ETH, balanceData := Some 10000000000000000\<rparr>)
       (Inr ''batch'') example_world
     = example_world
   \<and> requiredUsdc (example_props\<lparr>mintQuantity := 5\<rparr>) = Inr 20000000
   \<and> mintButton (example_props\<lparr>mintQuantity := 5\<rparr>) example_world
     = Inr (Some \<lparr>disabled = True, label = ''INSUFFICIENT USDC BALANCE''\<rparr>)
   \<and> pressMintButton (example_props\<lparr>mintQuantity := 5\<rparr>) (Inr ''batch'') example_world
     = example_world"
proof -
  let ?p = "example_props\<lparr>mintQuantity := 5, paymentMethod := ETH, balanceData := Some 10000000000000000\<rparr>"
  let ?u = "example_props\<lparr>mintQuantity := 5\<rparr>"
  note t = insufficient_balance_disables_mint
    [of ?p 10100000000000002 10000000000000000 10100000000000002 "Inr ''batch''" example_world]
  note tu = insufficient_balance_disables_mint
    [of ?u 20000000 10000000 20000000 "Inr ''batch''" example_world]
  have ea: "ethAmount ?p (mintQuantity ?p) = Some 10100000000000002"
    using example_ethAmount [of ?p] by (simp add: example_props_def)
  from t ea have re: "requiredEth ?p = Inr 10100000000000002" by simp
  have bal: "balanceData ?p = Some 10000000000000000" by (simp add: example_props_def)
  from t bal re have he: "hasEnoughEthBalance ?p = Inr False" by simp
  have pm: "paymentMethod ?p = ETH" by (simp add: example_props_def)
  from t pm he have pr: "pressMintButton ?p (Inr ''batch'') example_world = example_world"
    and bt: "\<forall>b. mintButton ?p example_world = Inr (Some b) \<longrightarrow>
                  disabled b \<and> label b = ''INSUFFICIENT ETH BALANCE''"
    by blast+
  have op: "isOpen ?p \<and> mintState example_world = Initial" "isOpen ?u \<and> mintState example_world = Initial"
    by (simp_all add: example_props_def example_world_def)
  then have "\<exists>b. mintButton ?p example_world = Inr (Some b)"
    using mintButton_insufficient_eth [OF pm he, of example_world] by simp
  then obtain b where b: "mintButton ?p example_world = Inr (Some b)" by blast
  with bt have "disabled b \<and> label b = ''INSUFFICIENT ETH BALANCE''" by blast
  then have "b = \<lparr>disabled = True, label = ''INSUFFICIENT ETH BALANCE''\<rparr>" by (cases b) simp
  with b have mb: "mintButton ?p example_world
                   = Inr (Some \<lparr>disabled = True, label = ''INSUFFICIENT ETH BALANCE''\<rparr>)" by simp
  from tu have ru: "requiredUsdc ?u = Inr 20000000" by (simp add: example_usdcAmount)
  have balu: "usdcBalance ?u = Some 10000000" by (simp add: example_props_def)
  from tu balu ru have hu: "hasEnoughUsdcBalance ?u = Inr False" by simp
  have pmu: "paymentMethod ?u = USDC" by (simp add: example_props_def)
  from tu pmu hu have pru: "pressMintButton ?u (Inr ''batch'') example_world = example_world"
    and btu: "\<forall>b. mintButton ?u example_world = Inr (Some b) \<longrightarrow>
                  disabled b \<and> label b = ''INSUFFICIENT USDC BALANCE''"
    by blast+
  have "\<exists>b. mintButton ?u example_world = Inr (Some b)"
    using mintButton_insufficient_usdc [OF pmu hu, of example_world] op by simp
  then obtain c where c: "mintButton ?u example_world = Inr (Some c)" by blast
  with btu have "disabled c \<and> label c = ''INSUFFICIENT USDC BALANCE''" by blast
  then have "c = \<lparr>disabled = True, label = ''INSUFFICIENT USDC BALANCE''\<rparr>" by (cases c) simp
  with c have mbu: "mintButton ?u example_world
                   = Inr (Some \<lparr>disabled = True, label = ''INSUFFICIENT USDC BALANCE''\<rparr>)" by simp
  from re mb pr ru mbu pru show ?thesis by simp
qed

section \<open>The post-mint pipeline\<close>

lemma executePostMintLogic_refused:
  "executePostMintLogic p True env w = w"
  by (simp add: executePostMintLogic_def split: option.splits)


text \<open>The trace of one run, whatever its calls do.\<close>

lemma executePostMintLogic_trace:
  assumes "userFid p = Some f" "f \<noteq> 0"
  shows "trace (executePostMintLogic p False env w) =
           trace w
           @ [SetPostMintExecuted True, PromptToAddMiniApp, CreateUser f]
           @ (case createUserMutation env of Throws \<Rightarrow> [Toast ''Error signing up user''] | Returns u \<Rightarrow> [])
           @ [CreateCollectionMutation f (tokenId p) (mintQuantity p)]
           @ (case createCollectionMutation env of
                Throws \<Rightarrow> [Toast ''Error creating collection'']
              | Returns d \<Rightarrow> [RefetchCollectors, RefetchUserCollector, RefetchTotalMints])
           @ [SendNotification (notificationTitle p)
                (leaderboardText (newUserPosition
                   (case createCollectionMutation env of Throws \<Rightarrow> None | Returns d \<Rightarrow> d))) 0 [f]]
           @ (case sendNotificationMutation env of
                Throws \<Rightarrow> [Toast ''Error sending notification''] | Returns u \<Rightarrow> [])
           @ [TrackEvent f (tokenId p) (mintQuantity p) (paymentMethod p)
                (num_mul (Some (usdPrice p)) (Some (of_int (mintQuantity p))))]"
  using assms
  by (cases "createUserMutation env"; cases "createCollectionMutation env";
      cases "sendNotificationMutation env")
    (simp_all add: executePostMintLogic_def signUpUser_def createCollectionStep_def
      sendNotification_def Let_def world_ops)

lemma executePostMintLogic_state:
  assumes "userFid p = Some f" "f \<noteq> 0"
  shows "postMintExecuted (executePostMintLogic p False env w) = True"
    and "mintState (executePostMintLogic p False env w) = mintState w"
    and "timers (executePostMintLogic p False env w) = timers w"
    and "clock (executePostMintLogic p False env w) = clock w"
    and "isSendCallsPending (executePostMintLogic p False env w) = isSendCallsPending w"
  using assms
  by (cases "createUserMutation env"; cases "createCollectionMutation env";
      cases "sendNotificationMutation env";
      simp add: executePostMintLogic_def signUpUser_def createCollectionStep_def
        sendNotification_def Let_def world_ops)+


lemma executePostMintLogic_fields:
  "mintState (executePostMintLogic p executed env w) = mintState w"
  "clock (executePostMintLogic p executed env w) = clock w"
  "isSendCallsPending (executePostMintLogic p executed env w) = isSendCallsPending w"
  by (cases "userFid p"; cases "createUserMutation env"; cases "createCollectionMutation env";
      cases "sendNotificationMutation env";
      simp add: executePostMintLogic_def signUpUser_def createCollectionStep_def
        sendNotification_def Let_def world_ops)+

lemma ordinalSuffix_positive:
  assumes "0 < n"
  shows "ordinalSuffix n =
           (if n mod 10 = 1 \<and> n mod 100 \<noteq> 11 then ''st''
            else if n mod 10 = 2 \<and> n mod 100 \<noteq> 12 then ''nd''
            else if n mod 10 = 3 \<and> n mod 100 \<noteq> 13 then ''rd''
            else ''th'')"
  using assms by (simp add: ordinalSuffix_def js_rem_def)

lemma leaderboardText_rank:
  "n \<noteq> 0 \<Longrightarrow> leaderboardText (Some n) =
     ''You're in '' @ numberToString n @ ordinalSuffix n @ '' place on the leaderboard''"
  by (simp add: leaderboardText_def)

text \<open>
  Claim C9, as stated, fails: a failure of the first step, the mini-app prompt, is caught
  and reported nowhere. With the prompt failing and every other call succeeding, the run
  shows no notice.
\<close>

theorem prompt_failure_not_reported:
  "promptToAddMiniApp (example_env\<lparr>promptToAddMiniApp := Throws\<rparr>) = Throws
   \<and> trace (executePostMintLogic example_props False (example_env\<lparr>promptToAddMiniApp := Throws\<rparr>)
              example_world) =
       [SetPostMintExecuted True, PromptToAddMiniApp, CreateUser 10, CreateCollectionMutation 10 7 2,
        RefetchCollectors, RefetchUserCollector, RefetchTotalMints,
        SendNotification ''You minted 2 editions of Song!'' ''You're in 2nd place on the leaderboard''
          0 [10],
        TrackEvent 10 7 2 USDC (Some 8)]"
proof -
  let ?env = "example_env\<lparr>promptToAddMiniApp := Throws\<rparr>"
  have fid: "userFid example_props = Some 10" "(10::nat) \<noteq> 0"
    by (simp_all add: example_props_fields)
  have title: "notificationTitle example_props = ''You minted 2 editions of Song!''"
    by (simp add: notificationTitle_def example_props_fields numberToString_def natToString.simps)
  have ltext: "leaderboardText (newUserPosition (Some \<lparr>details_position = Some 2, details_amount = Some 2\<rparr>))
              = ''You're in 2nd place on the leaderboard''"
    by (simp add: leaderboardText_def newUserPosition_def numberToString_def natToString.simps
        ordinalSuffix_def js_rem_def)
  have env: "createUserMutation ?env = Returns ()"
    "createCollectionMutation ?env = Returns (Some \<lparr>details_position = Some 2, details_amount = Some 2\<rparr>)"
    "sendNotificationMutation ?env = Returns ()" "promptToAddMiniApp ?env = Throws"
    by (simp_all add: example_env_def)
  show ?thesis
    by (simp add: executePostMintLogic_trace [OF fid] env title ltext example_props_fields
        example_world_def example_total)
qed

text \<open>
  Claim C9, amended. A run of the pipeline sets the guard and then calls, in this order,
  the mini-app prompt, the user registration, the collection upsert, the notification
  and the analytics event. Every one of them is called whatever the earlier ones did. A
  failure of the registration, of the upsert or of the notification shows its own notice;
  a failure of the prompt shows none. The notification text is the ordinal-suffixed rank
  when the upsert returned a rank other than zero, and the fallback text when the rank is
  null, when the details are null and when the upsert failed.
\<close>

theorem pipeline_steps_in_order:
  "(userFid p = Some f \<and> f \<noteq> 0 \<longrightarrow>
      trace (executePostMintLogic p False env w) =
        trace w
        @ [SetPostMintExecuted True, PromptToAddMiniApp, CreateUser f]
        @ (case createUserMutation env of Throws \<Rightarrow> [Toast ''Error signing up user''] | Returns u \<Rightarrow> [])
        @ [CreateCollectionMutation f (tokenId p) (mintQuantity p)]
        @ (case createCollectionMutation env of
             Throws \<Rightarrow> [Toast ''Error creating collection'']
           | Returns d \<Rightarrow> [RefetchCollectors, RefetchUserCollector, RefetchTotalMints])
        @ [SendNotification (notificationTitle p)
             (leaderboardText (newUserPosition
                (case createCollectionMutation env of Throws \<Rightarrow> None | Returns d \<Rightarrow> d))) 0 [f]]
        @ (case sendNotificationMutation env of
             Throws \<Rightarrow> [Toast ''Error sending notification''] | Returns u \<Rightarrow> [])
        @ [TrackEvent f (tokenId p) (mintQuantity p) (paymentMethod p)
             (num_mul (Some (usdPrice p)) (Some (of_int (mintQuantity p))))])
   \<and> (n \<noteq> 0 \<longrightarrow>
        leaderboardText (newUserPosition (Some \<lparr>details_position = Some n, details_amount = a\<rparr>)) =
          ''You're in '' @ numberToString n @ ordinalSuffix n @ '' place on the leaderboard'')
   \<and> (0 < n \<longrightarrow>
        ordinalSuffix n =
          (if n mod 10 = 1 \<and> n mod 100 \<noteq> 11 then ''st''
           else if n mod 10 = 2 \<and> n mod 100 \<noteq> 12 then ''nd''
           else if n mod 10 = 3 \<and> n mod 100 \<noteq> 13 then ''rd''
           else ''th''))
   \<and> leaderboardText (newUserPosition (Some \<lparr>details_position = None, details_amount = a\<rparr>)) =
        ''You're now on the leaderboard''
   \<and> leaderboardText (newUserPosition None) = ''You're now on the leaderboard''"
proof (intro conjI impI)
  assume "userFid p = Some f \<and> f \<noteq> 0"
  then have fid: "userFid p = Some f" "f \<noteq> 0" by simp_all
  show "trace (executePostMintLogic p False env w) =
        trace w
        @ [SetPostMintExecuted True, PromptToAddMiniApp, CreateUser f]
        @ (case createUserMutation env of Throws \<Rightarrow> [Toast ''Error signing up user''] | Returns u \<Rightarrow> [])
        @ [CreateCollectionMutation f (tokenId p) (mintQuantity p)]
        @ (case createCollectionMutation env of
             Throws \<Rightarrow> [Toast ''Error creating collection'']
           | Returns d \<Rightarrow> [RefetchCollectors, RefetchUserCollector, RefetchTotalMints])
        @ [SendNotification (notificationTitle p)
             (leaderboardText (newUserPosition
                (case createCollectionMutation env of Throws \<Rightarrow> None | Returns d \<Rightarrow> d))) 0 [f]]
        @ (case sendNotificationMutation env of
             Throws \<Rightarrow> [Toast ''Error sending notification''] | Returns u \<Rightarrow> [])
        @ [TrackEvent f (tokenId p) (mintQuantity p) (paymentMethod p)
             (num_mul (Some (usdPrice p)) (Some (of_int (mintQuantity p))))]"
    by (rule executePostMintLogic_trace [OF fid])
next
  assume "n \<noteq> 0"
  then show "leaderboardText (newUserPosition (Some \<lparr>details_position = Some n, details_amount = a\<rparr>)) =
          ''You're in '' @ numberToString n @ ordinalSuffix n @ '' place on the leaderboard''"
    by (simp add: newUserPosition_def leaderboardText_rank)
next
  assume "0 < n"
  then show "ordinalSuffix n =
          (if n mod 10 = 1 \<and> n mod 100 \<noteq> 11 then ''st''
           else if n mod 10 = 2 \<and> n mod 100 \<noteq> 12 then ''nd''
           else if n mod 10 = 3 \<and> n mod 100 \<noteq> 13 then ''rd''
           else ''th'')"
    by (rule ordinalSuffix_positive)
next
  show "leaderboardText (newUserPosition (Some \<lparr>details_position = None, details_amount = a\<rparr>)) =
        ''You're now on the leaderboard''"
    by (simp add: newUserPosition_def leaderboardText_def)
next
  show "leaderboardText (newUserPosition None) = ''You're now on the leaderboard''"
    by (simp add: newUserPosition_def leaderboardText_def)
qed

text \<open>
  A run in which the registration, the upsert and the notification all fail still makes
  all five calls, with the three notices and the fallback text; and rank 112 reads
  \<open>112th\<close>, rank 21 reads \<open>21st\<close>.
\<close>

theorem pipeline_steps_in_order_witness:
  "trace (executePostMintLogic example_props False
            \<lparr>promptToAddMiniApp = Throws, createUserMutation = Throws,
             createCollectionMutation = Throws, sendNotificationMutation = Throws\<rparr>
            example_world) =
     [SetPostMintExecuted True, PromptToAddMiniApp, CreateUser 10, Toast ''Error signing up user'',
      CreateCollectionMutation 10 7 2, Toast ''Error creating collection'',
      SendNotification ''You minted 2 editions of Song!'' ''You're now on the leaderboard'' 0 [10],
      Toast ''Error sending notification'', TrackEvent 10 7 2 USDC (Some 8)]
   \<and> leaderboardText (newUserPosition (Some \<lparr>details_position = Some 112, details_amount = None\<rparr>)) =
       ''You're in 112th place on the leaderboard''
   \<and> leaderboardText (newUserPosition (Some \<lparr>details_position = Some 21, details_amount = None\<rparr>)) =
       ''You're in 21st place on the leaderboard''"
proof -
  let ?env = "\<lparr>promptToAddMiniApp = Throws, createUserMutation = Throws,
             createCollectionMutation = Throws, sendNotificationMutation = Throws\<rparr>"
  have title: "notificationTitle example_props = ''You minted 2 editions of Song!''"
    by (simp add: notificationTitle_def example_props_fields numberToString_def natToString.simps)
  have n: "numberToString 112 = ''112''" "numberToString 21 = ''21''"
    by (simp_all add: numberToString_def natToString.simps)
  have 1: "trace (executePostMintLogic example_props False ?env example_world) =
     [SetPostMintExecuted True, PromptToAddMiniApp, CreateUser 10, Toast ''Error signing up user'',
      CreateCollectionMutation 10 7 2, Toast ''Error creating collection'',
      SendNotification ''You minted 2 editions of Song!'' ''You're now on the leaderboard'' 0 [10],
      Toast ''Error sending notification'', TrackEvent 10 7 2 USDC (Some 8)]"
    using pipeline_steps_in_order [of example_props 10 ?env example_world 1 None]
    by (simp add: example_props_fields title example_world_def example_total)
  have 2: "leaderboardText (newUserPosition (Some \<lparr>details_position = Some 112, details_amount = None\<rparr>)) =
       ''You're in 112th place on the leaderboard''"
    using pipeline_steps_in_order [of example_props 10 ?env example_world 112 None]
    by (simp add: n)
  have 3: "leaderboardText (newUserPosition (Some \<lparr>details_position = Some 21, details_amount = None\<rparr>)) =
       ''You're in 21st place on the leaderboard''"
    using pipeline_steps_in_order [of example_props 10 ?env example_world 21 None]
    by (simp add: n)
  from 1 2 3 show ?thesis by simp
qed

section \<open>The guard of the pipeline\<close>

lemma pipelineRuns_act [simp]:
  "pipelineRuns (act a w) = pipelineRuns w + (if a = PromptToAddMiniApp then 1 else 0)"
  by (simp add: pipelineRuns_def act_def)

lemma act_fields [simp]:
  "postMintExecuted (act a w) = postMintExecuted w"
  "timers (act a w) = timers w"
  "mintState (act a w) = mintState w"
  "clock (act a w) = clock w"
  "isSendCallsPending (act a w) = isSendCallsPending w"
  by (simp_all add: act_def)

lemma pipelineRuns_update [simp]:
  "pipelineRuns (w\<lparr>mintState := ms\<rparr>) = pipelineRuns w"
  "pipelineRuns (w\<lparr>postMintExecuted := b\<rparr>) = pipelineRuns w"
  "pipelineRuns (w\<lparr>isSendCallsPending := b\<rparr>) = pipelineRuns w"
  "pipelineRuns (w\<lparr>sendCallsId := si\<rparr>) = pipelineRuns w"
  "pipelineRuns (w\<lparr>timers := ts\<rparr>) = pipelineRuns w"
  "pipelineRuns (w\<lparr>clock := c\<rparr>) = pipelineRuns w"
  by (simp_all add: pipelineRuns_def)

lemmas setters =
  setMintState_def setPostMintExecuted_def setIsSendCallsPending_def setSendCallsId_def
  toast_def setTimeout_def

text \<open>A call of the pipeline runs it when the fid is there and its closure saw the guard unset.\<close>

lemma executePostMintLogic_runs:
  "pipelineRuns (executePostMintLogic p executed env w) =
     pipelineRuns w + (if truthy_fid (userFid p) \<and> \<not> executed then 1 else 0)"
  "postMintExecuted (executePostMintLogic p executed env w) =
     (if truthy_fid (userFid p) \<and> \<not> executed then True else postMintExecuted w)"
  "timers (executePostMintLogic p executed env w) = timers w"
  by (cases "userFid p"; cases "createUserMutation env"; cases "createCollectionMutation env";
      cases "sendNotificationMutation env";
      simp add: executePostMintLogic_def signUpUser_def createCollectionStep_def
        sendNotification_def Let_def setters truthy_fid_def)+

lemma handleMint_runs:
  "pipelineRuns (handleMint p amt x w) = pipelineRuns w"
  "timers (handleMint p amt x w) = timers w"
  "mintState (handleMint p amt x w) = mintState w"
  by (simp_all add: handleMint_def Let_def setters split: option.splits sum.splits)

lemma handleApproveOnly_keeps:
  "pipelineRuns (handleApproveOnly p w) = pipelineRuns w"
  "timers (handleApproveOnly p w) = timers w"
  "postMintExecuted (handleApproveOnly p w) = postMintExecuted w"
  "mintState (handleApproveOnly p w) = mintState w"
  by (simp_all add: handleApproveOnly_def split: option.splits sum.splits)

lemma sendCallsCatch_keeps:
  "pipelineRuns (sendCallsCatch p e w) = pipelineRuns w"
  "timers (sendCallsCatch p e w) = timers w"
  "postMintExecuted (sendCallsCatch p e w) = postMintExecuted w"
  "mintState (sendCallsCatch p e w) = mintState w"
  by (simp_all add: sendCallsCatch_def Let_def handleApproveOnly_keeps setters split: thrown.splits)

lemma handleApproveAndMint_runs:
  "pipelineRuns (handleApproveAndMintWithSendCalls p r w) = pipelineRuns w"
  "mintState (handleApproveAndMintWithSendCalls p r w) = mintState w"
  by (simp_all add: handleApproveAndMintWithSendCalls_def Let_def sendCallsCatch_keeps setters
      split: option.splits sum.splits)

lemma pressMintButton_keeps:
  "pipelineRuns (pressMintButton p r w) = pipelineRuns w"
  "mintState (pressMintButton p r w) = mintState w"
  by (simp_all add: pressMintButton_def onClickMint_def handleMint_runs handleApproveAndMint_runs
      split: sum.splits option.splits)

lemma postMintEffect_guarded: "postMintExecuted w \<Longrightarrow> postMintEffect p env w = w"
  by (simp add: postMintEffect_def)

text \<open>The effect on the mint receipt runs the pipeline only as it sets the state to \<open>Success\<close>.\<close>

lemma postMintEffect_answers:
  "pipelineRuns (postMintEffect p env w) + (if mintTxResult p = ReceiptSuccess \<and> mintState (postMintEffect p env w) \<noteq> Success then 1 else 0)
     \<le> pipelineRuns w + (if mintTxResult p = ReceiptSuccess \<and> mintState w \<noteq> Success then 1 else 0)"
  by (simp add: postMintEffect_def executePostMintLogic_runs executePostMintLogic_fields setters)

text \<open>A poll runs the pipeline only when it finds success, and leaves the state or sets it to \<open>Success\<close>.\<close>

lemma checkCallsStatus_answers:
  "pipelineRuns (checkCallsStatus i p executed result env analytics w)
     \<le> pipelineRuns w + (if result = Returns CallsSuccess then 1 else 0)"
  "mintState (checkCallsStatus i p executed result env analytics w) = mintState w
   \<or> mintState (checkCallsStatus i p executed result env analytics w) = Success"
  by (auto simp: checkCallsStatus_def executePostMintLogic_runs executePostMintLogic_fields
      setters Let_def split: outcome.splits calls_status.splits)

lemma fireTimer_answers:
  assumes "fireTimer result env analytics w = Some w'"
  shows "pipelineRuns w' \<le> pipelineRuns w + (if result = Returns CallsSuccess \<and> pollIsDue w then 1 else 0)"
    and "mintState w' = mintState w \<or> mintState w' = Success"
proof -
  from assms obtain due cb rest where t: "timers w = (due, cb) # rest" and d: "due \<le> clock w"
    and w': "w' = runCallback cb result env analytics (w\<lparr>timers := rest\<rparr>)"
    by (auto simp: fireTimer_def split: list.splits if_splits)
  let ?w = "w\<lparr>timers := rest\<rparr>"
  show "pipelineRuns w' \<le> pipelineRuns w + (if result = Returns CallsSuccess \<and> pollIsDue w then 1 else 0)"
  proof (cases cb)
    case (CheckCallsStatus i p executed)
    then have "pollIsDue w" by (simp add: pollIsDue_def t d)
    then show ?thesis
      using checkCallsStatus_answers(1) [of i p executed result env analytics ?w]
      by (simp add: w' CheckCallsStatus runCallback_def)
  next
    case RefetchAllowanceAndClear
    then show ?thesis by (simp add: w' runCallback_def setters)
  qed
  show "mintState w' = mintState w \<or> mintState w' = Success"
  proof (cases cb)
    case (CheckCallsStatus i p executed)
    then show ?thesis
      using checkCallsStatus_answers(2) [of i p executed result env analytics ?w]
      by (simp add: w' runCallback_def)
  next
    case RefetchAllowanceAndClear
    then show ?thesis by (simp add: w' runCallback_def setters)
  qed
qed

text \<open>
  The requests of a handler reach the hooks: whatever it did, the mint data is as before,
  or that of a reset, or that of a new request.
\<close>

lemma fold_hook_cases:
  "fold hook xs h = h \<or> fold hook xs h = idleHooks
   \<or> fold hook xs h = idleHooks\<lparr>mintWrite := WritePending\<rparr>"
proof (induction xs arbitrary: h)
  case Nil
  then show ?case by simp
next
  case (Cons a xs)
  have "hook a h = h \<or> hook a h = idleHooks \<or> hook a h = idleHooks\<lparr>mintWrite := WritePending\<rparr>"
    by (cases a) (simp_all add: hook_def)
  moreover have "fold hook xs idleHooks = idleHooks
                 \<or> fold hook xs idleHooks = idleHooks\<lparr>mintWrite := WritePending\<rparr>"
    using Cons.IH [of idleHooks] by auto
  moreover have "fold hook xs (idleHooks\<lparr>mintWrite := WritePending\<rparr>) = idleHooks
                 \<or> fold hook xs (idleHooks\<lparr>mintWrite := WritePending\<rparr>) = idleHooks\<lparr>mintWrite := WritePending\<rparr>"
    using Cons.IH [of "idleHooks\<lparr>mintWrite := WritePending\<rparr>"] by auto
  ultimately show ?case using Cons.IH [of h] by auto
qed

lemma hooks_after_requests:
  assumes "hooksConsistent h"
    and "h' = h \<or> h' = idleHooks \<or> h' = idleHooks\<lparr>mintWrite := WritePending\<rparr>"
  shows "hooksConsistent h'" and "unanswered (h', w) \<le> unanswered (h, w)"
  using assms by (auto simp: hooksConsistent_def unanswered_def idleHooks_def)

text \<open>
  One event of the component, on the props of the current render: the runs made plus the
  confirmed mint not yet answered grow only when a poll finds success.
\<close>

lemma step_answers:
  assumes "hooksConsistent h" "e \<noteq> HandleClose"
  shows "pipelineRuns (step (render p h) e w) + unanswered (h, step (render p h) e w)
           \<le> pipelineRuns w + unanswered (h, w)
               + (if (\<exists>env analytics. e = FireTimer (Returns CallsSuccess) env analytics) \<and> pollIsDue w
                  then 1 else 0)"
proof (cases e)
  case OpenEffect
  then show ?thesis by (simp add: step_def openEffect_def unanswered_def setters)
next
  case RefetchOnOpenEffect
  then show ?thesis by (simp add: step_def refetchOnOpenEffect_def unanswered_def)
next
  case (PressMintButton r)
  then show ?thesis by (simp add: step_def pressMintButton_keeps unanswered_def)
next
  case AllowanceSuccessEffect
  then show ?thesis
    by (simp add: step_def allowanceSuccessEffect_def handleMint_runs unanswered_def)
next
  case AllowanceErrorEffect
  then show ?thesis
    by (simp add: step_def allowanceErrorEffect_def unanswered_def setters split: option.splits)
next
  case MintErrorEffect
  then show ?thesis
    by (simp add: step_def mintErrorEffect_def unanswered_def setters Let_def split: option.splits)
next
  case MintStatusEffect
  then show ?thesis using assms(1)
    by (auto simp: step_def mintStatusEffect_def unanswered_def setters render_def
        hooksConsistent_def split: write_status.splits)
next
  case (PostMintEffect env)
  have "mintTxResult (render p h) = mintReceipt h" by (simp add: render_def)
  then show ?thesis
    using postMintEffect_answers [of "render p h" env w]
    by (simp add: step_def PostMintEffect unanswered_def)
next
  case HandleClose
  then show ?thesis using assms(2) by simp
next
  case EscapeKey
  then show ?thesis by (simp add: step_def unanswered_def)
next
  case (Tick ms)
  then show ?thesis by (simp add: step_def tick_def unanswered_def)
next
  case (FireTimer result env analytics)
  show ?thesis
  proof (cases "fireTimer result env analytics w")
    case None
    then show ?thesis by (simp add: step_def FireTimer)
  next
    case (Some w')
    have s: "step (render p h) e w = w'" by (simp add: step_def FireTimer Some)
    from fireTimer_answers [OF Some]
    have r: "pipelineRuns w' \<le> pipelineRuns w + (if result = Returns CallsSuccess \<and> pollIsDue w then 1 else 0)"
      and m: "mintState w' = mintState w \<or> mintState w' = Success" by simp_all
    from m have "unanswered (h, w') \<le> unanswered (h, w)" by (auto simp: unanswered_def)
    with r show ?thesis unfolding s by (auto simp: FireTimer split: if_splits)
  qed
next
  case (WalletAnswersMint r)
  then show ?thesis by (simp add: step_def)
next
  case (MintReceiptArrives ok)
  then show ?thesis by (simp add: step_def)
qed

text \<open>One event of a session: the sum grows by one at most, and only when a mint succeeds.\<close>

lemma sessionStep_answers:
  assumes "hooksConsistent h"
  shows "pipelineRuns (snd (sessionStep p e (h, w))) + unanswered (sessionStep p e (h, w))
           \<le> pipelineRuns w + unanswered (h, w) + (if mintSucceeds e (h, w) then 1 else 0)"
    and "hooksConsistent (fst (sessionStep p e (h, w)))"
proof -
  let ?w' = "step (render p h) e w"
  let ?h' = "fold hook (drop (length (trace w)) (trace ?w')) h"
  have both: "pipelineRuns (snd (sessionStep p e (h, w))) + unanswered (sessionStep p e (h, w))
           \<le> pipelineRuns w + unanswered (h, w) + (if mintSucceeds e (h, w) then 1 else 0)
        \<and> hooksConsistent (fst (sessionStep p e (h, w)))"
  proof (cases "e = HandleClose \<or> (\<exists>r. e = WalletAnswersMint r) \<or> (\<exists>ok. e = MintReceiptArrives ok)")
    case True
    then consider "e = HandleClose" | r where "e = WalletAnswersMint r"
      | ok where "e = MintReceiptArrives ok" by blast
    then show ?thesis
    proof cases
      case 1
      have "drop (length (trace w)) (trace (handleClose (render p h) w))
            = [SetMintState Initial, ResetMint, OnClose]"
        by (simp add: handleClose_def world_ops)
      then have "sessionStep p e (h, w) = (idleHooks, handleClose (render p h) w)"
        by (simp add: sessionStep_def 1 step_def hook_def)
      then show ?thesis
        by (simp add: unanswered_def idleHooks_def hooksConsistent_def handleClose_def setters)
    next
      case 2
      then show ?thesis using assms
        by (auto simp: sessionStep_def walletAnswersMint_def unanswered_def hooksConsistent_def
            mintSucceeds_def split: sum.splits)
    next
      case 3
      then show ?thesis using assms
        by (auto simp: sessionStep_def mintReceiptArrives_def unanswered_def hooksConsistent_def
            mintSucceeds_def)
    qed
  next
    case False
    then have s: "sessionStep p e (h, w) = (?h', ?w')"
      by (cases e) (simp_all add: sessionStep_def Let_def)
    from False have nc: "e \<noteq> HandleClose" by simp
    have c: "?h' = h \<or> ?h' = idleHooks \<or> ?h' = idleHooks\<lparr>mintWrite := WritePending\<rparr>"
      by (rule fold_hook_cases)
    have ms: "((\<exists>env analytics. e = FireTimer (Returns CallsSuccess) env analytics) \<and> pollIsDue w)
              = mintSucceeds e (h, w)"
      using False by (cases e) (auto simp: mintSucceeds_def)
    have "pipelineRuns ?w' + unanswered (?h', ?w') \<le> pipelineRuns ?w' + unanswered (h, ?w')"
      using hooks_after_requests(2) [OF assms c, of ?w'] by simp
    also have "\<dots> \<le> pipelineRuns w + unanswered (h, w) + (if mintSucceeds e (h, w) then 1 else 0)"
      using step_answers [OF assms nc, of p w] by (simp add: ms)
    finally show ?thesis using hooks_after_requests(1) [OF assms c] by (simp add: s)
  qed
  from both show "pipelineRuns (snd (sessionStep p e (h, w))) + unanswered (sessionStep p e (h, w))
           \<le> pipelineRuns w + unanswered (h, w) + (if mintSucceeds e (h, w) then 1 else 0)"
    by blast
  from both show "hooksConsistent (fst (sessionStep p e (h, w)))" by blast
qed

lemma run_answers:
  assumes "hooksConsistent (fst s)"
  shows "pipelineRuns (snd (run es s)) + unanswered (run es s)
           \<le> pipelineRuns (snd s) + unanswered s + successfulMints es s"
  using assms
proof (induction es arbitrary: s)
  case Nil
  then show ?case by simp
next
  case (Cons pe es)
  obtain p e where pe: "pe = (p, e)" by (cases pe)
  obtain h w where s: "s = (h, w)" by (cases s)
  from Cons.prems have hc: "hooksConsistent h" by (simp add: s)
  let ?s' = "sessionStep p e (h, w)"
  have hc': "hooksConsistent (fst ?s')" by (rule sessionStep_answers(2) [OF hc])
  have "pipelineRuns (snd (run (pe # es) s)) + unanswered (run (pe # es) s)
        \<le> pipelineRuns (snd ?s') + unanswered ?s' + successfulMints es ?s'"
    using Cons.IH [OF hc'] by (simp add: pe s)
  also have "\<dots> \<le> pipelineRuns w + unanswered (h, w) + (if mintSucceeds e (h, w) then 1 else 0)
                + successfulMints es ?s'"
    using sessionStep_answers(1) [OF hc, of p e w] by simp
  finally show ?case by (simp add: pe s)
qed

text \<open>No other event unsets the guard.\<close>

lemma step_keeps_guard:
  assumes "postMintExecuted w" "\<not> resets_guard e"
  shows "postMintExecuted (step p e w)"
proof (cases e)
  case (FireTimer result env analytics)
  show ?thesis
  proof (cases "fireTimer result env analytics w")
    case None
    then show ?thesis using assms(1) by (simp add: step_def FireTimer)
  next
    case (Some w')
    then obtain due cb rest where t: "timers w = (due, cb) # rest"
      and w': "w' = runCallback cb result env analytics (w\<lparr>timers := rest\<rparr>)"
      by (auto simp: fireTimer_def split: list.splits if_splits)
    have "postMintExecuted w'" using assms(1) unfolding w'
      by (cases cb)
        (auto simp: runCallback_def checkCallsStatus_def executePostMintLogic_runs setters Let_def
          split: outcome.splits calls_status.splits)
    then show ?thesis by (simp add: step_def FireTimer Some)
  qed
qed (use assms in \<open>auto simp: step_def refetchOnOpenEffect_def allowanceErrorEffect_def
       mintStatusEffect_def postMintEffect_def handleClose_def tick_def setters
       split: option.splits write_status.splits\<close>)

lemma pipeline_starts_with_guard:
  assumes "userFid p = Some f" "f \<noteq> 0"
  shows "take 2 (drop (length (trace w)) (trace (executePostMintLogic p False env w)))
         = [SetPostMintExecuted True, PromptToAddMiniApp]"
  by (simp add: executePostMintLogic_trace [OF assms])

text \<open>
  Claim C2, as stated, fails in its last part: the guard is also reset by every mint
  submission, by every bundled submission and by a mint error, with the modal open all
  the while.
\<close>

theorem guard_reset_without_new_session:
  "postMintExecuted (example_world\<lparr>postMintExecuted := True\<rparr>)
   \<and> \<not> postMintExecuted (handleMint example_props 2 False (example_world\<lparr>postMintExecuted := True\<rparr>))
   \<and> \<not> postMintExecuted (handleApproveAndMintWithSendCalls example_props (Inr ''batch'')
          (example_world\<lparr>postMintExecuted := True\<rparr>))
   \<and> \<not> postMintExecuted (mintErrorEffect (example_props\<lparr>mintError := Some ''execution reverted''\<rparr>)
          (example_world\<lparr>postMintExecuted := True\<rparr>))"
proof -
  have v: "mintValue example_props 2 = Inr 0"
    by (simp add: mintValue_def example_props_fields)
  have 1: "\<not> postMintExecuted (handleMint example_props 2 False (example_world\<lparr>postMintExecuted := True\<rparr>))"
    by (simp add: handleMint_submits [OF example_props_fields(1) v] setters)
  have 2: "\<not> postMintExecuted (handleApproveAndMintWithSendCalls example_props (Inr ''batch'')
          (example_world\<lparr>postMintExecuted := True\<rparr>))"
    by (simp add: handleApproveAndMintWithSendCalls_returns
        [OF example_props_fields(1) example_approveAmount] setters)
  have 3: "\<not> postMintExecuted (mintErrorEffect (example_props\<lparr>mintError := Some ''execution reverted''\<rparr>)
          (example_world\<lparr>postMintExecuted := True\<rparr>))"
    by (simp add: mintErrorEffect_def Let_def setters)
  from 1 2 3 show ?thesis by simp
qed

text \<open>
  Claim C2, amended. A run of the pipeline sets the guard before its first awaited call.
  A call whose closure saw the guard set does nothing, and the effect on the mint receipt
  does nothing while the guard is set. In every sequence of events of a session, however
  often the effects fire, the pipeline runs at most once for each successful mint: the
  runs made, plus one for a confirmed mint that the component has not yet answered, never
  exceed what they were at the start plus the number of mints that succeeded since (a
  receipt of a mint transaction turning to success, a poll finding its batch successful).
  The guard is reset by the effect on the modal opening, and also by a press of the mint
  button, by the effect on a confirmed approval (which mints), and by the effect on a
  mint error; no other event unsets it.
\<close>

theorem post_mint_pipeline_at_most_once:
  "(userFid p = Some f \<and> f \<noteq> 0 \<longrightarrow>
      take 2 (drop (length (trace w)) (trace (executePostMintLogic p False env w)))
        = [SetPostMintExecuted True, PromptToAddMiniApp]
      \<and> postMintExecuted (executePostMintLogic p False env w))
   \<and> executePostMintLogic p True env w = w
   \<and> (postMintExecuted w \<longrightarrow> postMintEffect p env w = w)
   \<and> (hooksConsistent h \<longrightarrow>
        pipelineRuns (snd (run es (h, w))) + unanswered (run es (h, w))
          \<le> pipelineRuns w + unanswered (h, w) + successfulMints es (h, w))
   \<and> (hooksConsistent h \<and> mintReceipt h \<noteq> ReceiptSuccess \<longrightarrow>
        pipelineRuns (snd (run es (h, w))) \<le> pipelineRuns w + successfulMints es (h, w))
   \<and> (postMintExecuted w \<and> \<not> resets_guard e \<longrightarrow> postMintExecuted (step p e w))"
proof (intro conjI impI)
  assume "userFid p = Some f \<and> f \<noteq> 0"
  then have fid: "userFid p = Some f" "f \<noteq> 0" by simp_all
  show "take 2 (drop (length (trace w)) (trace (executePostMintLogic p False env w)))
        = [SetPostMintExecuted True, PromptToAddMiniApp]"
    by (rule pipeline_starts_with_guard [OF fid])
  show "postMintExecuted (executePostMintLogic p False env w)"
    by (simp add: executePostMintLogic_state(1) [OF fid])
next
  show "executePostMintLogic p True env w = w" by (rule executePostMintLogic_refused)
next
  assume "postMintExecuted w"
  then show "postMintEffect p env w = w" by (rule postMintEffect_guarded)
next
  assume "hooksConsistent h"
  then show "pipelineRuns (snd (run es (h, w))) + unanswered (run es (h, w))
          \<le> pipelineRuns w + unanswered (h, w) + successfulMints es (h, w)"
    using run_answers [of "(h, w)" es] by simp
next
  assume a: "hooksConsistent h \<and> mintReceipt h \<noteq> ReceiptSuccess"
  then have "unanswered (h, w) = 0" by (simp add: unanswered_def)
  then show "pipelineRuns (snd (run es (h, w))) \<le> pipelineRuns w + successfulMints es (h, w)"
    using run_answers [of "(h, w)" es] a by simp
next
  assume "postMintExecuted w \<and> \<not> resets_guard e"
  then show "postMintExecuted (step p e w)" by (simp add: step_keeps_guard)
qed

text \<open>
  The session of the example has one successful mint. The pipeline has run once after the
  first effect on the receipt, and still once at the end: the further effects change
  nothing, closing the modal forgets the receipt, and the effect after the modal opens
  again (which resets the guard) finds no receipt to answer.
\<close>

theorem post_mint_pipeline_at_most_once_witness:
  "hooksConsistent idleHooks
   \<and> successfulMints example_session (idleHooks, example_world) = 1
   \<and> pipelineRuns (snd (run (take 5 example_session) (idleHooks, example_world))) = 1
   \<and> pipelineRuns (snd (run example_session (idleHooks, example_world))) = 1
   \<and> \<not> postMintExecuted (snd (run example_session (idleHooks, example_world)))
   \<and> take 2 (trace (executePostMintLogic example_props False example_env example_world))
       = [SetPostMintExecuted True, PromptToAddMiniApp]
   \<and> postMintEffect (example_props\<lparr>mintTxResult := ReceiptSuccess\<rparr>) example_env
        (example_world\<lparr>postMintExecuted := True\<rparr>) = example_world\<lparr>postMintExecuted := True\<rparr>
   \<and> postMintExecuted (step example_props HandleClose (example_world\<lparr>postMintExecuted := True\<rparr>))"
proof -
  have hc: "hooksConsistent idleHooks \<and> mintReceipt idleHooks \<noteq> ReceiptSuccess"
    by (simp add: hooksConsistent_def idleHooks_def)
  have sm: "successfulMints example_session (idleHooks, example_world) = 1" by code_simp
  have r5: "pipelineRuns (snd (run (take 5 example_session) (idleHooks, example_world))) = 1"
    by code_simp
  have g: "\<not> postMintExecuted (snd (run example_session (idleHooks, example_world)))"
    by code_simp
  have ge: "1 \<le> pipelineRuns (snd (run example_session (idleHooks, example_world)))"
    by code_simp
  have r0: "pipelineRuns example_world = 0" by (simp add: pipelineRuns_def example_world_def)
  from post_mint_pipeline_at_most_once [of _ _ example_world _ idleHooks example_session] hc
  have "pipelineRuns (snd (run example_session (idleHooks, example_world)))
          \<le> pipelineRuns example_world + successfulMints example_session (idleHooks, example_world)"
    by blast
  with sm r0 ge have "pipelineRuns (snd (run example_session (idleHooks, example_world))) = 1"
    by simp
  then have 4: "pipelineRuns (snd (run example_session (idleHooks, example_world))) = 1" .
  have fid: "userFid example_props = Some 10 \<and> (10::nat) \<noteq> 0" by (simp add: example_props_fields)
  from post_mint_pipeline_at_most_once [of example_props 10 example_world example_env] fid
  have "take 2 (drop (length (trace example_world))
                  (trace (executePostMintLogic example_props False example_env example_world)))
        = [SetPostMintExecuted True, PromptToAddMiniApp]"
    by blast
  then have 5: "take 2 (trace (executePostMintLogic example_props False example_env example_world))
        = [SetPostMintExecuted True, PromptToAddMiniApp]"
    by (simp add: example_world_def)
  have gs: "postMintExecuted (example_world\<lparr>postMintExecuted := True\<rparr>)
            \<and> \<not> resets_guard HandleClose" by simp
  from post_mint_pipeline_at_most_once
    [of "example_props\<lparr>mintTxResult := ReceiptSuccess\<rparr>" _
        "example_world\<lparr>postMintExecuted := True\<rparr>" example_env _ _ HandleClose] gs
  have 6: "postMintEffect (example_props\<lparr>mintTxResult := ReceiptSuccess\<rparr>) example_env
        (example_world\<lparr>postMintExecuted := True\<rparr>) = example_world\<lparr>postMintExecuted := True\<rparr>"
    by blast
  from post_mint_pipeline_at_most_once
    [of example_props _ "example_world\<lparr>postMintExecuted := True\<rparr>" _ _ _ HandleClose] gs
  have 7: "postMintExecuted (step example_props HandleClose (example_world\<lparr>postMintExecuted := True\<rparr>))"
    by blast
  from hc sm r5 g 4 5 6 7 show ?thesis by simp
qed

section \<open>Polling a bundled batch\<close>


















end
